theory Spec2Isabelle
  imports Complex_Main "HOL-Library.AList" "HOL-Library.Multiset" "HOL-Library.Sublist"
begin

section \<open>Data model of \<open>game_manager.js\<close>\<close>

text \<open>
  The source file holds two classes: \<open>GameState\<close> (roster, roles, phase, ballot, speaker
  queue; it emits events) and \<open>GameManager\<close> (the orchestrator that narrates over the
  transport and asks the AI characters for decisions).

  A JavaScript \<open>Map\<close> keeps its keys in insertion order, and the code iterates over maps,
  so a \<open>Map\<close> is an association list with distinct keys: \<open>get\<close> is \<^const>\<open>map_of\<close>,
  \<open>set\<close> is \<^const>\<open>AList.update\<close> (an existing key keeps its place, a new one goes last),
  \<open>delete\<close> is \<^const>\<open>AList.delete\<close>. A \<open>Set\<close> is a list without repetition.
  Player ids are strings. \<open>emit\<close> appends to the trace of emitted events; the listeners the
  manager registers are \<open>async\<close> functions, they never change a \<open>GameState\<close> field before
  their first \<open>await\<close>, and the handlers that matter below are operations of their own.
  A handler runs synchronously up to its first \<open>await\<close> when the event is emitted and
  goes on later; nothing but what is written out below is taken to run in between.
\<close>

datatype role = Werewolf | Villager | Seer | Witch | Hunter

datatype phase = Waiting | PoliceElection | Night | Day

datatype winner = Villagers | Werewolves

datatype error =
    TypeError     \<comment> \<open>a property read on \<open>undefined\<close>, or a call of something that is no function\<close>
  | RangeError    \<comment> \<open>\<open>Array(n)\<close> with a negative length\<close>
  | NotEnoughPlayers  \<comment> \<open>\<open>Error('Not enough players to start the game')\<close>\<close>
  | DeadPlayersCannotVote  \<comment> \<open>\<open>Error('Dead players cannot vote')\<close>\<close>

datatype outcome = Returned | Thrown error

record player =
  pid :: string
  isAI :: bool
  pname :: string
  isAlive :: bool
  hasSpoken :: bool

datatype event =
    GameStarted
  | PoliceElectionStarted
  | NightStarted nat
  | DayStarted nat
  | WerewolvesPhaseStarted "string list"
  | SeerPhaseStarted string
  | WitchPhaseStarted string
  | NextSpeaker string
  | PlayerDied string
  | PlayerEliminated string
  | GameEnded winner
  | Vote string string

record game_state =
  players :: "(string \<times> player) list"
  roles :: "(string \<times> role) list"
  isNight :: bool
  currentDay :: nat
  phase :: phase
  deadPlayers :: "string list"
  votes :: "(string \<times> string) list"
  police :: "string option"
  currentSpeaker :: "string option"
  speakQueue :: "string list"
  gameStarted :: bool
  emitted :: "event list"

text \<open>The state the constructor of \<open>GameState\<close> builds.\<close>

definition new_GameState :: game_state where
  "new_GameState = \<lparr> players = [], roles = [], isNight = True, currentDay = 0,
     phase = Waiting, deadPlayers = [], votes = [], police = None, currentSpeaker = None,
     speakQueue = [], gameStarted = False, emitted = [] \<rparr>"

definition emit :: "event \<Rightarrow> game_state \<Rightarrow> game_state" where
  "emit e s = s\<lparr>emitted := emitted s @ [e]\<rparr>"

definition Set_add :: "'a \<Rightarrow> 'a list \<Rightarrow> 'a list" where
  "Set_add x xs = (if x \<in> set xs then xs else xs @ [x])"

definition Set_delete :: "'a \<Rightarrow> 'a list \<Rightarrow> 'a list" where
  "Set_delete x xs = removeAll x xs"

text \<open>A state is well formed when its maps are maps: no key occurs twice.\<close>

definition wf_state :: "game_state \<Rightarrow> bool" where
  "wf_state s \<longleftrightarrow> distinct (map fst (players s)) \<and> distinct (map fst (roles s)) \<and>
     distinct (map fst (votes s)) \<and> distinct (deadPlayers s)"

section \<open>\<open>GameState\<close>: roster and role assignment\<close>

text \<open>\<open>name || `Player ${playerId}`\<close>: a missing or empty name gives the default.\<close>

definition addPlayer :: "string \<Rightarrow> bool \<Rightarrow> string option \<Rightarrow> game_state \<Rightarrow> game_state" where
  "addPlayer playerId ai nm s =
     s\<lparr>players := AList.update playerId
          \<lparr> pid = playerId, isAI = ai,
            pname = (case nm of None \<Rightarrow> ''Player '' @ playerId
                     | Some n \<Rightarrow> if n = [] then ''Player '' @ playerId else n),
            isAlive = True, hasSpoken = False \<rparr> (players s)\<rparr>"

definition removePlayer :: "string \<Rightarrow> game_state \<Rightarrow> game_state" where
  "removePlayer playerId s =
     s\<lparr>players := AList.delete playerId (players s), roles := AList.delete playerId (roles s)\<rparr>"

text \<open>
  The role counts of \<open>assignRoles\<close>. \<open>Math.ceil(numPlayers / 3)\<close> is computed on doubles;
  for every roster that fits in memory the quotient is exact enough that the result is the
  integer ceiling, \<open>(n + 2) div 3\<close>. \<open>numVillagers\<close> is a difference and may be negative in
  JavaScript, so it is an \<open>int\<close>.
\<close>

definition numWerewolves :: "nat \<Rightarrow> nat" where
  "numWerewolves numPlayers = (numPlayers + 2) div 3"

definition numSeers :: "nat \<Rightarrow> nat" where
  "numSeers numPlayers = (if numPlayers \<ge> 6 then 1 else 0)"

definition numWitches :: "nat \<Rightarrow> nat" where
  "numWitches numPlayers = (if numPlayers \<ge> 6 then 1 else 0)"

definition numHunters :: "nat \<Rightarrow> nat" where
  "numHunters numPlayers = (if numPlayers \<ge> 9 then 1 else 0)"

definition numVillagers :: "nat \<Rightarrow> int" where
  "numVillagers numPlayers =
     int numPlayers - int (numWerewolves numPlayers) - int (numSeers numPlayers)
       - int (numWitches numPlayers) - int (numHunters numPlayers)"

text \<open>\<open>Array(n).fill(r)\<close>: a negative \<open>n\<close> throws \<open>RangeError: Invalid array length\<close>.\<close>

definition Array_fill :: "int \<Rightarrow> 'a \<Rightarrow> error + 'a list" where
  "Array_fill n r = (if n < 0 then Inl RangeError else Inr (replicate (nat n) r))"

text \<open>
  The pool literal evaluates its spread elements left to right: werewolves, villagers,
  seers, witches, hunters. Only the villagers' length can be negative.
\<close>

definition role_pool :: "nat \<Rightarrow> error + role list" where
  "role_pool numPlayers =
     (case Array_fill (numVillagers numPlayers) Villager of
        Inl e \<Rightarrow> Inl e
      | Inr vs \<Rightarrow> Inr (replicate (numWerewolves numPlayers) Werewolf @ vs
                       @ replicate (numSeers numPlayers) Seer
                       @ replicate (numWitches numPlayers) Witch
                       @ replicate (numHunters numPlayers) Hunter))"

text \<open>
  The shuffle loop \<open>for (i = length - 1; i > 0; i--)\<close>. The source draws
  \<open>j = Math.floor(Math.random() * (i + 1))\<close>, an integer of \<open>0..i\<close>; the model reads the
  draws from a list of naturals, one per iteration, and reduces each into \<open>0..i\<close> (a
  missing draw counts as 0). \<open>shuffle_from i\<close> runs the iterations \<open>i, i - 1, ..., 1\<close>.
\<close>

fun shuffle_from :: "nat \<Rightarrow> nat list \<Rightarrow> 'a list \<Rightarrow> 'a list" where
  "shuffle_from 0 draws rs = rs"
| "shuffle_from (Suc k) draws rs =
     (let i = Suc k;
          j = (case draws of [] \<Rightarrow> 0 | d # _ \<Rightarrow> d mod (i + 1))
      in shuffle_from k (tl draws) (rs[i := rs ! j, j := rs ! i]))"

definition shuffle :: "nat list \<Rightarrow> 'a list \<Rightarrow> 'a list" where
  "shuffle draws rs = shuffle_from (length rs - 1) draws rs"

text \<open>
  \<open>playerIds.forEach((playerId, index) => this.roles.set(playerId, roles[index]))\<close>. The
  pool has as many entries as there are players (lemma \<open>role_pool_length\<close>), so pairing
  the two lists position by position loses nothing.
\<close>

definition assignRoles :: "nat list \<Rightarrow> game_state \<Rightarrow> error + game_state" where
  "assignRoles draws s =
     (let playerIds = map fst (players s);
          numPlayers = length playerIds
      in case role_pool numPlayers of
           Inl e \<Rightarrow> Inl e
         | Inr pool \<Rightarrow>
             Inr (s\<lparr>roles := fold (\<lambda>(playerId, r) m. AList.update playerId r m)
                                 (zip playerIds (shuffle draws pool)) (roles s)\<rparr>))"

definition getPlayerRole :: "game_state \<Rightarrow> string \<Rightarrow> role option" where
  "getPlayerRole s playerId = map_of (roles s) playerId"

section \<open>\<open>GameState\<close>: kills and the win check\<close>

definition killPlayer :: "string \<Rightarrow> game_state \<Rightarrow> game_state" where
  "killPlayer playerId s =
     (case map_of (players s) playerId of
        None \<Rightarrow> s
      | Some player \<Rightarrow>
          emit (PlayerDied playerId)
            (s\<lparr>players := AList.update playerId (player\<lparr>isAlive := False\<rparr>) (players s),
               deadPlayers := Set_add playerId (deadPlayers s)\<rparr>))"

definition livingPlayers :: "game_state \<Rightarrow> (string \<times> player) list" where
  "livingPlayers s = filter (\<lambda>(_, player). isAlive player) (players s)"

definition livingWerewolves :: "game_state \<Rightarrow> nat" where
  "livingWerewolves s =
     length (filter (\<lambda>(i, _). map_of (roles s) i = Some Werewolf) (livingPlayers s))"

definition livingVillagers :: "game_state \<Rightarrow> nat" where
  "livingVillagers s =
     length (filter (\<lambda>(i, _). map_of (roles s) i \<noteq> Some Werewolf) (livingPlayers s))"

definition checkGameEnd :: "game_state \<Rightarrow> bool \<times> game_state" where
  "checkGameEnd s =
     (if livingWerewolves s = 0 then (True, emit (GameEnded Villagers) s)
      else if livingVillagers s = 0 then (True, emit (GameEnded Werewolves) s)
      else (False, s))"

section \<open>\<open>GameState\<close>: phases and the speaker queue\<close>

text \<open>
  \<open>Array.from(this.roles.entries()).filter(([id, role]) => role === r &&
  this.players.get(id).isAlive)\<close>: the entries are visited in order, and an entry with role
  \<open>r\<close> whose id is no player reads \<open>isAlive\<close> of \<open>undefined\<close>, which throws.
\<close>

fun filter_living_role :: "role \<Rightarrow> (string \<times> player) list \<Rightarrow> (string \<times> role) list
    \<Rightarrow> error + string list" where
  "filter_living_role r ps [] = Inr []"
| "filter_living_role r ps ((i, r') # es) =
     (if r' = r then
        (case map_of ps i of
           None \<Rightarrow> Inl TypeError
         | Some player \<Rightarrow>
             (case filter_living_role r ps es of
                Inl e \<Rightarrow> Inl e
              | Inr ids \<Rightarrow> Inr (if isAlive player then i # ids else ids)))
      else filter_living_role r ps es)"

text \<open>The same test under \<open>find\<close>, which stops at the first entry that passes.\<close>

fun find_living_role :: "role \<Rightarrow> (string \<times> player) list \<Rightarrow> (string \<times> role) list
    \<Rightarrow> error + string option" where
  "find_living_role r ps [] = Inr None"
| "find_living_role r ps ((i, r') # es) =
     (if r' = r then
        (case map_of ps i of
           None \<Rightarrow> Inl TypeError
         | Some player \<Rightarrow> if isAlive player then Inr (Some i) else find_living_role r ps es)
      else find_living_role r ps es)"

text \<open>
  \<open>startNight\<close>, \<open>processWerewolves\<close>, \<open>processNextSpeaker\<close> and
  \<open>processAllPlayersSpoken\<close> call each other, each call being the last statement of its
  caller: with no living werewolf the queue is empty again and the calls never end. The four
  bodies are the four branches of one partial function; \<open>None\<close> is a run that does not
  return (on a stack of bounded size such a run ends with a \<open>RangeError\<close>:
  \<open>run_with_listeners\<close> below is the cycle with that bound). A result is how the call ended together with the state it left behind (a thrown
  error does not undo the assignments made before it). The array that
  \<open>werewolvesPhaseStarted\<close> carries is the queue itself; the trace keeps its content at
  the time of the \<open>emit\<close>, before \<open>processNextSpeaker\<close> shifts the first id out of it.
\<close>

datatype call = StartNight | ProcessWerewolves | ProcessNextSpeaker | ProcessAllPlayersSpoken

partial_function (option) run :: "call \<Rightarrow> game_state \<Rightarrow> (outcome \<times> game_state) option" where
  "run c s =
     (case c of
        StartNight \<Rightarrow>
          run ProcessWerewolves (emit (NightStarted (currentDay s)) (s\<lparr>isNight := True, phase := Night\<rparr>))
      | ProcessWerewolves \<Rightarrow>
          (case filter_living_role Werewolf (players s) (roles s) of
             Inl e \<Rightarrow> Some (Thrown e, s)
           | Inr werewolves \<Rightarrow>
               run ProcessNextSpeaker (emit (WerewolvesPhaseStarted werewolves) (s\<lparr>speakQueue := werewolves\<rparr>)))
      | ProcessNextSpeaker \<Rightarrow>
          (case speakQueue s of
             [] \<Rightarrow> run ProcessAllPlayersSpoken s
           | p # q \<Rightarrow> Some (Returned, emit (NextSpeaker p) (s\<lparr>currentSpeaker := Some p, speakQueue := q\<rparr>)))
      | ProcessAllPlayersSpoken \<Rightarrow> run StartNight (s\<lparr>phase := Night\<rparr>))"

declare run.simps [code]

definition startNight :: "game_state \<Rightarrow> (outcome \<times> game_state) option" where
  "startNight s = run StartNight s"

definition processWerewolves :: "game_state \<Rightarrow> (outcome \<times> game_state) option" where
  "processWerewolves s = run ProcessWerewolves s"

definition processNextSpeaker :: "game_state \<Rightarrow> (outcome \<times> game_state) option" where
  "processNextSpeaker s = run ProcessNextSpeaker s"

definition processAllPlayersSpoken :: "game_state \<Rightarrow> (outcome \<times> game_state) option" where
  "processAllPlayersSpoken s = run ProcessAllPlayersSpoken s"

text \<open>
  \<open>startDay\<close> ends with \<open>this.announceDeaths()\<close>. Neither \<open>GameState\<close> nor \<open>EventEmitter\<close>
  has a member of that name, so the call throws after the day has been started.
\<close>

definition startDay :: "game_state \<Rightarrow> outcome \<times> game_state" where
  "startDay s =
     (Thrown TypeError,
      emit (DayStarted (currentDay s + 1)) (s\<lparr>isNight := False, phase := Day, currentDay := currentDay s + 1\<rparr>))"

definition processWitch :: "game_state \<Rightarrow> outcome \<times> game_state" where
  "processWitch s =
     (case find_living_role Witch (players s) (roles s) of
        Inl e \<Rightarrow> (Thrown e, s)
      | Inr (Some witch) \<Rightarrow> (Returned, emit (WitchPhaseStarted witch) (s\<lparr>currentSpeaker := Some witch\<rparr>))
      | Inr None \<Rightarrow> startDay s)"

definition processSeer :: "game_state \<Rightarrow> outcome \<times> game_state" where
  "processSeer s =
     (case find_living_role Seer (players s) (roles s) of
        Inl e \<Rightarrow> (Thrown e, s)
      | Inr (Some seer) \<Rightarrow> (Returned, emit (SeerPhaseStarted seer) (s\<lparr>currentSpeaker := Some seer\<rparr>))
      | Inr None \<Rightarrow> processWitch s)"

definition startPoliceElection :: "game_state \<Rightarrow> (outcome \<times> game_state) option" where
  "startPoliceElection s =
     processNextSpeaker
       (emit PoliceElectionStarted
          (s\<lparr>phase := PoliceElection, speakQueue := map fst (livingPlayers s)\<rparr>))"

definition startGame :: "nat list \<Rightarrow> game_state \<Rightarrow> (outcome \<times> game_state) option" where
  "startGame draws s =
     (if length (players s) < 3 then Some (Thrown NotEnoughPlayers, s)
      else case assignRoles draws (s\<lparr>gameStarted := True\<rparr>) of
             Inl e \<Rightarrow> Some (Thrown e, s\<lparr>gameStarted := True\<rparr>)
           | Inr s1 \<Rightarrow>
               startPoliceElection (emit GameStarted (s1\<lparr>currentDay := 1, isNight := False, phase := Day\<rparr>)))"

section \<open>\<open>GameState\<close>: the ballot\<close>

text \<open>
  \<open>processVotes\<close> first counts the votes per target into a fresh \<open>Map\<close> (a target enters
  the map when its first vote is counted), then scans that map and keeps an entry whenever
  its count exceeds the largest count met so far. \<open>if (eliminated)\<close> tests truthiness:
  \<open>null\<close> and the empty string fail it.
\<close>

definition countVotes :: "(string \<times> string) list \<Rightarrow> (string \<times> nat) list" where
  "countVotes vs =
     fold (\<lambda>(_, targetId) voteCount.
             AList.update targetId ((case map_of voteCount targetId of None \<Rightarrow> 0 | Some c \<Rightarrow> c) + 1) voteCount)
          vs []"

definition mostVotes :: "(string \<times> nat) list \<Rightarrow> nat \<times> string option" where
  "mostVotes voteCount =
     fold (\<lambda>(targetId, count) (maxVotes, eliminated).
             if count > maxVotes then (count, Some targetId) else (maxVotes, eliminated))
          voteCount (0, None)"

definition processVotes :: "game_state \<Rightarrow> (outcome \<times> game_state) option" where
  "processVotes s =
     (let voteCount = countVotes (votes s);
          eliminated = snd (mostVotes voteCount);
          s1 = (case eliminated of
                  None \<Rightarrow> s
                | Some e \<Rightarrow> if e = [] then s else emit (PlayerEliminated e) (killPlayer e s));
          s2 = s1\<lparr>votes := []\<rparr>;
          (ended, s3) = checkGameEnd s2
      in if ended then Some (Returned, s3)
         else if isNight s3 then Some (processSeer s3)
         else startNight s3)"

text \<open>
  \<open>vote\<close> reads \<open>this.players.get(voterId).isAlive\<close>: an id that is no player throws a
  \<open>TypeError\<close>, a dead player the \<open>Error\<close> of the source. Both happen before any assignment.
\<close>

definition vote :: "string \<Rightarrow> string \<Rightarrow> game_state \<Rightarrow> (outcome \<times> game_state) option" where
  "vote voterId targetId s =
     (case map_of (players s) voterId of
        None \<Rightarrow> Some (Thrown TypeError, s)
      | Some voter \<Rightarrow>
          if \<not> isAlive voter then Some (Thrown DeadPlayersCannotVote, s)
          else
            (let s1 = emit (Vote voterId targetId) (s\<lparr>votes := AList.update voterId targetId (votes s)\<rparr>)
             in if length (map fst (votes s1)) = length (map fst (livingPlayers s1))
                then processVotes s1
                else Some (Returned, s1)))"

section \<open>\<open>GameManager\<close>: narration\<close>

text \<open>
  The manager owns a \<open>GameState\<close>, the AI characters, the witches' potions and a connection
  handler. What the transport received through \<open>ws.send\<close> and which texts were handed to
  \<open>synthesizeAndStreamAudio\<close> are kept as two logs. A wire message is the object that is
  passed to \<open>JSON.stringify\<close>; a field that is \<open>undefined\<close> is \<open>None\<close>.
\<close>

datatype speaker_role = ModeratorRole | PlayerRole "role option"

datatype wire_message =
    SpeakerInfo string "string option" speaker_role
      \<comment> \<open>\<open>{type: 'speaker_info', speaker, name, role}\<close>\<close>
  | GameLog "string option" string string bool
      \<comment> \<open>\<open>{type: 'game_log', speaker, message, timestamp, isPrivate}\<close>\<close>

text \<open>
  Modelled from the spec: the class \<open>AICharacter\<close> (\<open>./ai_character\<close> is not among the
  sources). The first four fields are the arguments \<open>createAICharacter\<close> passes to its
  constructor; the context buffer and the private knowledge are what the specification
  says a decision provider keeps.
\<close>

record ai_character =
  cid :: string
  cname :: string
  crole :: "role option"
  personality :: string
  gameContext :: "string list"
  knownInformation :: "(string \<times> role option) list"

record potions =
  antidote :: bool
  poison :: bool

record manager =
  state :: game_state
  aiCharacters :: "(string \<times> ai_character) list"
  witchPotions :: "(string \<times> potions) list"
  sent :: "wire_message list"
  synthesized :: "string list"

record game_context =
  day :: nat
  ctxIsNight :: bool
  ctxPhase :: phase
  ctxLivingPlayers :: "player list"

record witch_decision =
  save :: bool
  kill :: "string option"

text \<open>
  The collaborators that are not part of the sources are parameters: the clock read by
  \<open>new Date().toISOString()\<close> (indexed by the number of messages already sent), whether
  \<open>synthesizeAndStreamAudio\<close> resolves or rejects for a text, the decision methods of
  \<open>AICharacter\<close>, and the room the engine's call stack has left when the state machine
  is entered (the number of nested calls it still holds before a \<open>RangeError\<close>).
\<close>

record env =
  clock :: "nat \<Rightarrow> string"
  synthesizeOk :: "string \<Rightarrow> bool"
  stackRoom :: nat
  makeWerewolfKillDecision :: "ai_character \<Rightarrow> string list \<Rightarrow> game_context \<Rightarrow> string option"
  makeSeerCheckDecision :: "ai_character \<Rightarrow> string list \<Rightarrow> game_context \<Rightarrow> string option"
  makeWitchDecision :: "ai_character \<Rightarrow> string \<Rightarrow> bool \<Rightarrow> bool \<Rightarrow> string list \<Rightarrow> game_context \<Rightarrow> witch_decision"

text \<open>
  Modelled from the spec: \<open>AICharacter.updateGameContext\<close> and
  \<open>AICharacter.addKnownInformation\<close> (\<open>./ai_character\<close> is not among the sources). The spec
  says that a narration is appended to the context buffer of the provider, and that the
  seer's finding is recorded in that actor's private knowledge.
\<close>

definition updateGameContext :: "string \<Rightarrow> ai_character \<Rightarrow> ai_character" where
  "updateGameContext line character = character\<lparr>gameContext := gameContext character @ [line]\<rparr>"

definition addKnownInformation :: "string \<Rightarrow> role option \<Rightarrow> ai_character \<Rightarrow> ai_character" where
  "addKnownInformation k v character =
     character\<lparr>knownInformation := knownInformation character @ [(k, v)]\<rparr>"

text \<open>
  The four \<open>skipTTSPatterns\<close>. All carry the flag \<open>i\<close> and no flag \<open>u\<close>, so a letter of
  the pattern matches its ASCII upper- and lower-case forms only. \<open>.\<close> matches any
  character but a line terminator; strings are sequences of characters below 256, where
  the line terminators are line feed and carriage return.
\<close>

definition lower :: "char \<Rightarrow> char" where
  "lower c = (case map_of (zip ''ABCDEFGHIJKLMNOPQRSTUVWXYZ'' ''abcdefghijklmnopqrstuvwxyz'') c of
                None \<Rightarrow> c | Some l \<Rightarrow> l)"

definition starts_ci :: "string \<Rightarrow> string \<Rightarrow> bool" where
  "starts_ci pat txt = prefix (map lower pat) (map lower txt)"

fun search_ci :: "string \<Rightarrow> string \<Rightarrow> bool" where
  "search_ci pat [] = starts_ci pat []"
| "search_ci pat (c # cs) = (starts_ci pat (c # cs) \<or> search_ci pat cs)"

definition line_terminator :: "char \<Rightarrow> bool" where
  "line_terminator c = (c = CHR 0x0A \<or> c = CHR 0x0D)"

text \<open>\<open>.*\<close> followed by \<open>pat\<close>, anchored at the start of the text.\<close>

fun any_then :: "string \<Rightarrow> string \<Rightarrow> bool" where
  "any_then pat [] = starts_ci pat []"
| "any_then pat (c # cs) = (starts_ci pat (c # cs) \<or> (\<not> line_terminator c \<and> any_then pat cs))"

text \<open>\<open>pre\<close>, then \<open>.+\<close>, then \<open>post\<close>, anywhere in the text.\<close>

fun search_between :: "string \<Rightarrow> string \<Rightarrow> string \<Rightarrow> bool" where
  "search_between pre post [] = False"
| "search_between pre post (c # cs) =
     ((starts_ci pre (c # cs) \<and>
         (case drop (length pre) (c # cs) of
            [] \<Rightarrow> False
          | d # ds \<Rightarrow> \<not> line_terminator d \<and> any_then post ds))
      \<or> search_between pre post cs)"

definition skipTTSPatterns :: "(string \<Rightarrow> bool) list" where
  "skipTTSPatterns =
     [search_ci ''Game has started'',
      search_between ''You are '' ''. Your role is'',
      search_ci ''It's time to elect a police chief'',
      search_ci ''Each player will have a chance to nominate themselves'']"

definition getLivingPlayers :: "manager \<Rightarrow> (string \<times> player) list" where
  "getLivingPlayers m = filter (\<lambda>(_, player). isAlive player) (players (state m))"

definition getGameContext :: "manager \<Rightarrow> game_context" where
  "getGameContext m =
     \<lparr> day = currentDay (state m), ctxIsNight = isNight (state m), ctxPhase = phase (state m),
       ctxLivingPlayers = map snd (getLivingPlayers m) \<rparr>"

text \<open>
  \<open>speak\<close> runs inside one \<open>try\<close> whose \<open>catch\<close> only logs, so it never throws. The two
  \<open>ws.send\<close> calls are taken to succeed. When the synthesis rejects, the loop over the AI
  characters is skipped. \<open>targetPlayers\<close> is \<open>null\<close> (\<open>None\<close>) or an array of ids, taken
  with the content it has when the loop over the AI characters reads it.
\<close>

definition speak :: "env \<Rightarrow> string \<Rightarrow> string \<Rightarrow> string list option \<Rightarrow> manager \<Rightarrow> manager" where
  "speak ev speaker message targetPlayers m =
     (let nm = (if speaker = ''Moderator'' then Some ''Moderator''
                else map_option pname (map_of (players (state m)) speaker));
          rl = (if speaker = ''Moderator'' then ModeratorRole
                else PlayerRole (getPlayerRole (state m) speaker));
          speakerInfo = SpeakerInfo speaker nm rl;
          gameLogMessage = GameLog nm message (clock ev (length (sent m))) (targetPlayers \<noteq> None);
          m1 = m\<lparr>sent := sent m @ [speakerInfo, gameLogMessage]\<rparr>;
          shouldSkipTTS = list_ex (\<lambda>pattern. pattern message) skipTTSPatterns;
          m2 = (if shouldSkipTTS then m1 else m1\<lparr>synthesized := synthesized m1 @ [message]\<rparr>)
      in if \<not> shouldSkipTTS \<and> \<not> synthesizeOk ev message then m2
         else m2\<lparr>aiCharacters :=
                   map (\<lambda>(k, character).
                          (k, if (case targetPlayers of None \<Rightarrow> True
                                  | Some ids \<Rightarrow> cid character \<in> set ids)
                              then updateGameContext (speaker @ '': '' @ message) character
                              else character))
                       (aiCharacters m2)\<rparr>)"

text \<open>
  An \<open>async\<close> function runs synchronously up to its first \<open>await\<close>. \<open>speak\<close> awaits
  nothing but the synthesis, and that only for a text no pattern exempts. \<open>speak_begin\<close> is
  what a call of \<open>speak\<close> does before it is suspended (for an exempt text that is all of
  it), \<open>speak_end\<close> what it does once the synthesis has settled; \<open>speak\<close> is the one after
  the other (lemma \<open>speak_split\<close>). The audience is an array held by reference and read
  only by \<open>targetPlayers.includes\<close> in the loop over the AI characters, so each part takes
  the content the array has when that part runs.
\<close>

definition tellCharacters :: "string \<Rightarrow> string \<Rightarrow> string list option \<Rightarrow> manager \<Rightarrow> manager" where
  "tellCharacters speaker message targetPlayers m =
     m\<lparr>aiCharacters :=
         map (\<lambda>(k, character).
                (k, if (case targetPlayers of None \<Rightarrow> True
                        | Some ids \<Rightarrow> cid character \<in> set ids)
                    then updateGameContext (speaker @ '': '' @ message) character
                    else character))
             (aiCharacters m)\<rparr>"

definition speak_begin :: "env \<Rightarrow> string \<Rightarrow> string \<Rightarrow> string list option \<Rightarrow> manager \<Rightarrow> manager" where
  "speak_begin ev speaker message targetPlayers m =
     (let nm = (if speaker = ''Moderator'' then Some ''Moderator''
                else map_option pname (map_of (players (state m)) speaker));
          rl = (if speaker = ''Moderator'' then ModeratorRole
                else PlayerRole (getPlayerRole (state m) speaker));
          speakerInfo = SpeakerInfo speaker nm rl;
          gameLogMessage = GameLog nm message (clock ev (length (sent m))) (targetPlayers \<noteq> None);
          m1 = m\<lparr>sent := sent m @ [speakerInfo, gameLogMessage]\<rparr>;
          shouldSkipTTS = list_ex (\<lambda>pattern. pattern message) skipTTSPatterns
      in if shouldSkipTTS then tellCharacters speaker message targetPlayers m1
         else m1\<lparr>synthesized := synthesized m1 @ [message]\<rparr>)"

definition speak_end :: "env \<Rightarrow> string \<Rightarrow> string \<Rightarrow> string list option \<Rightarrow> manager \<Rightarrow> manager" where
  "speak_end ev speaker message targetPlayers m =
     (if list_ex (\<lambda>pattern. pattern message) skipTTSPatterns \<or> \<not> synthesizeOk ev message then m
      else tellCharacters speaker message targetPlayers m)"

section \<open>\<open>GameManager\<close>: the night handlers and human input\<close>

text \<open>
  \<open>getLivingPlayers\<close> returns a \<open>Map\<close>. \<open>Map.prototype\<close> has neither \<open>filter\<close> nor
  \<open>map\<close>, so \<open>this.getLivingPlayers().filter(...)\<close> and \<open>livingPlayers.map(...)\<close> on
  that value call \<open>undefined\<close> and throw a \<open>TypeError\<close>. The handlers are \<open>async\<close>: the
  error rejects the promise they return, which is how their run ends here.
\<close>

definition Map_filter :: "(string \<times> player) list \<Rightarrow> (player \<Rightarrow> bool) \<Rightarrow> error + player list" where
  "Map_filter mp f = Inl TypeError"

definition Map_map :: "(string \<times> player) list \<Rightarrow> (player \<Rightarrow> 'b) \<Rightarrow> error + 'b list" where
  "Map_map mp f = Inl TypeError"

text \<open>
  A handler holds an AI character by reference: when it uses the character after a
  \<open>speak\<close>, it sees the object as \<open>aiCharacters\<close> holds it then.
\<close>

definition deref :: "manager \<Rightarrow> string \<Rightarrow> ai_character \<Rightarrow> ai_character" where
  "deref m k character = (case map_of (aiCharacters m) k of None \<Rightarrow> character | Some c \<Rightarrow> c)"

text \<open>
  The loop \<open>for (const werewolfId of werewolves)\<close> of \<open>handleWerewolvesPhase\<close>: a werewolf
  without AI character is passed over; \<open>if (target)\<close> drops \<open>null\<close> and the empty string.
\<close>

fun werewolfVotes :: "env \<Rightarrow> manager \<Rightarrow> string list \<Rightarrow> string list \<Rightarrow> (string \<times> string) list
    \<Rightarrow> error + (string \<times> string) list" where
  "werewolfVotes ev m werewolves [] vs = Inr vs"
| "werewolfVotes ev m werewolves (werewolfId # rest) vs =
     (case map_of (aiCharacters m) werewolfId of
        None \<Rightarrow> werewolfVotes ev m werewolves rest vs
      | Some character \<Rightarrow>
          (case Map_filter (getLivingPlayers m) (\<lambda>p. pid p \<notin> set werewolves) of
             Inl e \<Rightarrow> Inl e
           | Inr living \<Rightarrow>
               (case makeWerewolfKillDecision ev character (map pname living) (getGameContext m) of
                  None \<Rightarrow> werewolfVotes ev m werewolves rest vs
                | Some target \<Rightarrow>
                    if target = [] then werewolfVotes ev m werewolves rest vs
                    else werewolfVotes ev m werewolves rest (AList.update werewolfId target vs))))"

text \<open>
  \<open>handleWerewolvesPhase\<close> holds its argument by reference and reads it after its first
  \<open>await\<close>: in the audience test of the first \<open>speak\<close>, in the loop, and in the last
  \<open>speak\<close>. Its only caller is the listener of \<open>werewolvesPhaseStarted\<close>, and the array that
  event carries is \<open>this.speakQueue\<close> itself, which \<open>processNextSpeaker\<close> shifts. The
  argument is therefore a view of the game state (\<open>speakQueue\<close> for that caller, a constant
  function for an array nobody else holds), applied to the state at the time of each read.
  \<open>handleWerewolvesPhase_begin\<close> is the handler up to its first suspension,
  \<open>handleWerewolvesPhase_resume\<close> the rest, and \<open>handleWerewolvesPhase\<close> a call during
  whose suspension nothing else runs. \<open>killPlayer\<close> emits \<open>playerDied\<close>, whose listener
  changes nothing before it is suspended or rejected.
\<close>

definition handleWerewolvesPhase_begin :: "env \<Rightarrow> (game_state \<Rightarrow> string list) \<Rightarrow> manager \<Rightarrow> manager" where
  "handleWerewolvesPhase_begin ev werewolves m =
     speak_begin ev ''Moderator'' ''Werewolves, open your eyes and choose your victim.''
       (Some (werewolves (state m))) m"

definition handleWerewolvesPhase_resume :: "env \<Rightarrow> (game_state \<Rightarrow> string list) \<Rightarrow> manager
    \<Rightarrow> outcome \<times> manager" where
  "handleWerewolvesPhase_resume ev werewolves m =
     (let m1 = speak_end ev ''Moderator'' ''Werewolves, open your eyes and choose your victim.''
                 (Some (werewolves (state m))) m
      in case werewolfVotes ev m1 (werewolves (state m1)) (werewolves (state m1)) [] of
           Inl e \<Rightarrow> (Thrown e, m1)
         | Inr vs \<Rightarrow>
             (case snd (mostVotes (countVotes vs)) of
                None \<Rightarrow> (Returned, m1)
              | Some victim \<Rightarrow>
                  if victim = [] then (Returned, m1)
                  else (let m2 = m1\<lparr>state := killPlayer victim (state m1)\<rparr>
                        in (Returned,
                            speak ev ''Moderator'' ''The werewolves have made their choice.''
                              (Some (werewolves (state m2))) m2))))"

definition handleWerewolvesPhase :: "env \<Rightarrow> (game_state \<Rightarrow> string list) \<Rightarrow> manager
    \<Rightarrow> outcome \<times> manager" where
  "handleWerewolvesPhase ev werewolves m =
     handleWerewolvesPhase_resume ev werewolves (handleWerewolvesPhase_begin ev werewolves m)"

definition handleSeerPhase :: "env \<Rightarrow> string \<Rightarrow> manager \<Rightarrow> outcome \<times> manager" where
  "handleSeerPhase ev seerId m =
     (case map_of (aiCharacters m) seerId of
        None \<Rightarrow> (Returned, m)
      | Some character \<Rightarrow>
          (let m1 = speak ev ''Moderator'' ''Seer, open your eyes and choose a player to investigate.''
                      (Some [seerId]) m
           in case Map_filter (getLivingPlayers m1) (\<lambda>p. pid p \<noteq> seerId) of
                Inl e \<Rightarrow> (Thrown e, m1)
              | Inr living \<Rightarrow>
                  (let target = makeSeerCheckDecision ev (deref m1 seerId character) (map pname living)
                                  (getGameContext m1);
                       m2 = (case target of
                               None \<Rightarrow> m1
                             | Some t \<Rightarrow>
                                 if t = [] then m1
                                 else (let targetRole = getPlayerRole (state m1) t
                                       in speak ev ''Moderator''
                                            (''Player '' @ t @ '' is a '' @
                                               (case targetRole of
                                                  None \<Rightarrow> ''undefined''
                                                | Some Werewolf \<Rightarrow> ''werewolf''
                                                | Some Villager \<Rightarrow> ''villager''
                                                | Some Seer \<Rightarrow> ''seer''
                                                | Some Witch \<Rightarrow> ''witch''
                                                | Some Hunter \<Rightarrow> ''hunter'') @ ''.'')
                                            (Some [seerId])
                                            (m1\<lparr>aiCharacters :=
                                                 map (\<lambda>(k, c). (k, if k = seerId
                                                        then addKnownInformation (''Player '' @ t @ '' Role'') targetRole c
                                                        else c))
                                                     (aiCharacters m1)\<rparr>)))
                   in (Returned, speak ev ''Moderator'' ''Seer, close your eyes.'' (Some [seerId]) m2))))"

text \<open>
  \<open>handleWitchPhase\<close>. The one call of \<open>makeWitchDecision\<close> stands inside the branch
  \<open>if (potions.antidote && this.state.deadPlayers.size > 0)\<close>, and so do both uses of its
  answer. The guard is written as a case on the dead set, whose first element the branch
  names, followed by the test of the antidote. \<open>potions\<close> is the object stored in \<open>witchPotions\<close>, so an assignment to one of
  its fields is an update of that map.
\<close>

definition handleWitchPhase :: "env \<Rightarrow> string \<Rightarrow> manager \<Rightarrow> outcome \<times> manager" where
  "handleWitchPhase ev witchId m =
     (case map_of (aiCharacters m) witchId of
        None \<Rightarrow> (Returned, m)
      | Some character \<Rightarrow>
          (case map_of (witchPotions m) witchId of
             None \<Rightarrow> (Returned, m)
           | Some pot \<Rightarrow>
               (let m1 = speak ev ''Moderator'' ''Witch, open your eyes.'' (Some [witchId]) m
                in case deadPlayers (state m1) of
                     [] \<Rightarrow> (Returned, speak ev ''Moderator'' ''Witch, close your eyes.'' (Some [witchId]) m1)
                   | killedPlayer # _ \<Rightarrow>
                       if \<not> antidote pot
                       then (Returned, speak ev ''Moderator'' ''Witch, close your eyes.'' (Some [witchId]) m1)
                       else
                         (case Map_map (getLivingPlayers m1) pname of
                            Inl e \<Rightarrow> (Thrown e, m1)
                          | Inr names \<Rightarrow>
                              (let decision = makeWitchDecision ev (deref m1 witchId character) killedPlayer True (poison pot)
                                                names (getGameContext m1);
                                   m2 = (if save decision
                                         then speak ev ''Moderator'' ''The witch has used the antidote.'' (Some [witchId])
                                                (m1\<lparr>state := (state m1)\<lparr>deadPlayers := Set_delete killedPlayer (deadPlayers (state m1))\<rparr>,
                                                    witchPotions := AList.update witchId (pot\<lparr>antidote := False\<rparr>) (witchPotions m1)\<rparr>)
                                         else m1);
                                   m3 = (case kill decision of
                                           None \<Rightarrow> m2
                                         | Some victim \<Rightarrow>
                                             if victim = [] \<or> \<not> poison pot then m2
                                             else speak ev ''Moderator'' ''The witch has used the poison.'' (Some [witchId])
                                                    (m2\<lparr>state := killPlayer victim (state m2),
                                                        witchPotions :=
                                                          map (\<lambda>(k, q). (k, if k = witchId then q\<lparr>poison := False\<rparr> else q))
                                                              (witchPotions m2)\<rparr>))
                               in (Returned, speak ev ''Moderator'' ''Witch, close your eyes.'' (Some [witchId]) m3))))))"

text \<open>
  The state machine as the manager runs it. The constructor registers a listener for
  every event, and \<open>emit\<close> calls it at once; the listener runs up to its first \<open>await\<close>
  before \<open>emit\<close> returns. For the three events the four functions of the cycle emit these
  are: \<open>handleNightStarted\<close>, which begins a narration with the day number;
  \<open>handleWerewolvesPhase\<close>, handed the queue itself; and \<open>handleNextSpeaker\<close>, which does
  nothing for an id that is no player, calls the AI character's \<open>generateResponse\<close> (a
  collaborator, with no effect on the manager) for an AI player, and begins the narration
  of the turn for a human one. The rest of each listener runs later and is no part of
  the call.
\<close>

definition digit :: "nat \<Rightarrow> char" where
  "digit n = ''0123456789'' ! n"

function decimal :: "nat \<Rightarrow> string" where
  "decimal n = (if n < 10 then [digit n] else decimal (n div 10) @ [digit (n mod 10)])"
  by pat_completeness auto
termination
  by (relation "measure (\<lambda>n. n)") auto

definition handleNightStarted_begin :: "env \<Rightarrow> nat \<Rightarrow> manager \<Rightarrow> manager" where
  "handleNightStarted_begin ev d m =
     speak_begin ev ''Moderator'' (''Night '' @ decimal d @ '' has fallen. Everyone close your eyes.'')
       None m"

definition handleNextSpeaker_begin :: "env \<Rightarrow> string \<Rightarrow> manager \<Rightarrow> manager" where
  "handleNextSpeaker_begin ev playerId m =
     (case map_of (players (state m)) playerId of
        None \<Rightarrow> m
      | Some player \<Rightarrow>
          if isAI player then m
          else speak_begin ev ''Moderator'' ''It's your turn to speak.'' None m)"

text \<open>
  The four functions of the cycle on a real stack, with the listeners: the bodies are those
  of \<open>run\<close>, each \<open>emit\<close> followed by the beginning of its listener. The first argument is
  the number of nested calls the stack still holds; where \<open>run\<close> has no result the calls
  pile up until the stack is full and the engine throws a \<open>RangeError\<close>, which no function
  of the cycle catches. The engine decides where exactly the stack runs out; here it runs
  out on entering one of the four functions.
\<close>

fun run_with_listeners :: "env \<Rightarrow> nat \<Rightarrow> call \<Rightarrow> manager \<Rightarrow> outcome \<times> manager" where
  "run_with_listeners ev 0 c m = (Thrown RangeError, m)"
| "run_with_listeners ev (Suc room) c m =
     (case c of
        StartNight \<Rightarrow>
          run_with_listeners ev room ProcessWerewolves
            (handleNightStarted_begin ev (currentDay (state m))
               (m\<lparr>state := emit (NightStarted (currentDay (state m)))
                                ((state m)\<lparr>isNight := True, phase := Night\<rparr>)\<rparr>))
      | ProcessWerewolves \<Rightarrow>
          (case filter_living_role Werewolf (players (state m)) (roles (state m)) of
             Inl e \<Rightarrow> (Thrown e, m)
           | Inr werewolves \<Rightarrow>
               run_with_listeners ev room ProcessNextSpeaker
                 (handleWerewolvesPhase_begin ev speakQueue
                    (m\<lparr>state := emit (WerewolvesPhaseStarted werewolves)
                                     ((state m)\<lparr>speakQueue := werewolves\<rparr>)\<rparr>)))
      | ProcessNextSpeaker \<Rightarrow>
          (case speakQueue (state m) of
             [] \<Rightarrow> run_with_listeners ev room ProcessAllPlayersSpoken m
           | p # q \<Rightarrow>
               (Returned,
                handleNextSpeaker_begin ev p
                  (m\<lparr>state := emit (NextSpeaker p)
                                   ((state m)\<lparr>currentSpeaker := Some p, speakQueue := q\<rparr>)\<rparr>)))
      | ProcessAllPlayersSpoken \<Rightarrow>
          run_with_listeners ev room StartNight (m\<lparr>state := (state m)\<lparr>phase := Night\<rparr>\<rparr>))"

text \<open>
  \<open>handleHumanInput\<close> compares with \<open>===\<close>; \<open>currentSpeaker\<close> is \<open>null\<close> until the first
  speaker is set. The call \<open>this.state.processNextSpeaker()\<close> follows the awaited \<open>speak\<close>;
  an error it throws rejects the promise of \<open>handleHumanInput\<close>, with everything done
  before it left as it is.
\<close>

definition handleHumanInput :: "env \<Rightarrow> string \<Rightarrow> string \<Rightarrow> manager \<Rightarrow> outcome \<times> manager" where
  "handleHumanInput ev playerId message m =
     (if currentSpeaker (state m) = Some playerId
      then run_with_listeners ev (stackRoom ev) ProcessNextSpeaker (speak ev playerId message None m)
      else (Returned, m))"

section \<open>Example states\<close>

text \<open>A roster of one human and two AI players, as \<open>addPlayer\<close> builds it.\<close>

definition demo3 :: game_state where
  "demo3 = addPlayer ''ai_2'' True None
             (addPlayer ''ai_1'' True None
                (addPlayer ''h'' False (Some ''Human Player'') new_GameState))"

text \<open>
  The same roster with the roles a three-player game has (one werewolf, two villagers),
  and that game after every player has been killed.
\<close>

definition demo3_roles :: game_state where
  "demo3_roles = demo3\<lparr>roles := [(''h'', Villager), (''ai_1'', Werewolf), (''ai_2'', Villager)]\<rparr>"

definition demo3_all_dead :: game_state where
  "demo3_all_dead = killPlayer ''ai_2'' (killPlayer ''ai_1'' (killPlayer ''h'' demo3_roles))"

text \<open>
  A game played through the interface of \<open>GameState\<close>: the three players are added, the
  game is started (the draws 1 and 0 make \<open>ai_1\<close> the werewolf), and all three vote, two of
  them against \<open>ai_1\<close>. \<open>demo_ended\<close> is the state this run ends in.
\<close>

definition demo_ended_run :: "(outcome \<times> game_state) option" where
  "demo_ended_run =
     Option.bind (startGame [1, 0] demo3) (\<lambda>(_, s1).
       Option.bind (vote ''h'' ''ai_1'' s1) (\<lambda>(_, s2).
         Option.bind (vote ''ai_1'' ''ai_2'' s2) (\<lambda>(_, s3). vote ''ai_2'' ''ai_1'' s3)))"

definition demo_ended :: game_state where
  "demo_ended =
     \<lparr> players =
         [(''h'', \<lparr>pid = ''h'', isAI = False, pname = ''Human Player'', isAlive = True, hasSpoken = False\<rparr>),
          (''ai_1'', \<lparr>pid = ''ai_1'', isAI = True, pname = ''Player ai_1'', isAlive = False, hasSpoken = False\<rparr>),
          (''ai_2'', \<lparr>pid = ''ai_2'', isAI = True, pname = ''Player ai_2'', isAlive = True, hasSpoken = False\<rparr>)],
       roles = [(''h'', Villager), (''ai_1'', Werewolf), (''ai_2'', Villager)],
       isNight = False, currentDay = 1, phase = PoliceElection, deadPlayers = [''ai_1''],
       votes = [], police = None, currentSpeaker = Some ''h'', speakQueue = [''ai_1'', ''ai_2''],
       gameStarted = True,
       emitted = [GameStarted, PoliceElectionStarted, NextSpeaker ''h'', Vote ''h'' ''ai_1'',
                  Vote ''ai_1'' ''ai_2'', Vote ''ai_2'' ''ai_1'', PlayerDied ''ai_1'',
                  PlayerEliminated ''ai_1'', GameEnded Villagers] \<rparr>"

text \<open>A day of the three-player game with one speaker left in the queue, and the same day
  after that speaker has been popped.\<close>

definition demo_day :: game_state where
  "demo_day = demo3_roles\<lparr>isNight := False, currentDay := 1, phase := Day,
                speakQueue := [''ai_1''], gameStarted := True\<rparr>"

definition demo_day_spoken :: game_state where
  "demo_day_spoken = emit (NextSpeaker ''ai_1'') (demo_day\<lparr>currentSpeaker := Some ''ai_1'', speakQueue := []\<rparr>)"

text \<open>
  Collaborators for the examples: a fixed clock, a synthesis that always resolves, a
  stack with room for twelve nested calls, AI
  werewolves and seers that pick the first name offered, and a witch that always wants to
  save and to poison \<open>h\<close>.
\<close>

definition demo_env :: env where
  "demo_env =
     \<lparr> clock = (\<lambda>_. ''2024-01-01T00:00:00.000Z''),
       synthesizeOk = (\<lambda>_. True),
       stackRoom = 12,
       makeWerewolfKillDecision = (\<lambda>_ names _. case names of [] \<Rightarrow> None | n # _ \<Rightarrow> Some n),
       makeSeerCheckDecision = (\<lambda>_ names _. case names of [] \<Rightarrow> None | n # _ \<Rightarrow> Some n),
       makeWitchDecision = (\<lambda>_ _ _ _ _ _. \<lparr>save = True, kill = Some ''h''\<rparr>) \<rparr>"

definition demo_character :: "string \<Rightarrow> role \<Rightarrow> ai_character" where
  "demo_character i r =
     \<lparr> cid = i, cname = ''Player '' @ i, crole = Some r,
       personality = ''You are observant and quiet, speaking only when you have something important to say.'',
       gameContext = [], knownInformation = [] \<rparr>"

text \<open>
  The first night of a three-player game in which the human player is the werewolf (the
  draws 1 and 1 give that assignment): the two AI players have characters, the human has
  none.
\<close>

definition demo_manager_hw :: manager where
  "demo_manager_hw =
     \<lparr> state = demo3\<lparr>roles := [(''h'', Werewolf), (''ai_1'', Villager), (''ai_2'', Villager)],
                 isNight := True, currentDay := 1, phase := Night, gameStarted := True,
                 currentSpeaker := Some ''h''\<rparr>,
       aiCharacters = [(''ai_1'', demo_character ''ai_1'' Villager),
                       (''ai_2'', demo_character ''ai_2'' Villager)],
       witchPotions = [], sent = [], synthesized = [] \<rparr>"

text \<open>
  The first night of a six-player game with the roles in pool order; nobody has died, and
  the witch \<open>ai_5\<close> holds both potions.
\<close>

definition demo6 :: game_state where
  "demo6 =
     (addPlayer ''ai_5'' True None (addPlayer ''ai_4'' True None (addPlayer ''ai_3'' True None
        (addPlayer ''ai_2'' True None (addPlayer ''ai_1'' True None
           (addPlayer ''h'' False (Some ''Human Player'') new_GameState))))))
     \<lparr>roles := [(''h'', Werewolf), (''ai_1'', Werewolf), (''ai_2'', Villager),
                (''ai_3'', Villager), (''ai_4'', Seer), (''ai_5'', Witch)],
      isNight := True, currentDay := 1, phase := Night, gameStarted := True,
      currentSpeaker := Some ''ai_5''\<rparr>"

definition demo_manager_witch :: manager where
  "demo_manager_witch =
     \<lparr> state = demo6,
       aiCharacters = [(''ai_1'', demo_character ''ai_1'' Werewolf),
                       (''ai_2'', demo_character ''ai_2'' Villager),
                       (''ai_3'', demo_character ''ai_3'' Villager),
                       (''ai_4'', demo_character ''ai_4'' Seer),
                       (''ai_5'', demo_character ''ai_5'' Witch)],
       witchPotions = [(''ai_5'', \<lparr>antidote = True, poison = True\<rparr>)],
       sent = [], synthesized = [] \<rparr>"

text \<open>
  A day of the three-player game on which every player has voted and every target has one
  vote: \<open>h\<close> voted first, for \<open>ai_2\<close>.
\<close>

definition demo_ballot :: game_state where
  "demo_ballot = demo_day\<lparr>speakQueue := [],
                   votes := [(''h'', ''ai_2''), (''ai_1'', ''h''), (''ai_2'', ''ai_1'')]\<rparr>"

text \<open>
  A ballot with a stale vote, reached through the interface of \<open>GameState\<close>: the game is
  started, \<open>h\<close> votes against \<open>ai_1\<close>, and \<open>h\<close> is killed before the others have voted.
  \<open>demo_stale\<close> is the state this leads to.
\<close>

definition demo_stale_run :: "game_state option" where
  "demo_stale_run =
     Option.bind (startGame [1, 0] demo3) (\<lambda>(_, s1).
       Option.bind (vote ''h'' ''ai_1'' s1) (\<lambda>(_, s2). Some (killPlayer ''h'' s2)))"

definition demo_stale :: game_state where
  "demo_stale =
     \<lparr> players =
         [(''h'', \<lparr>pid = ''h'', isAI = False, pname = ''Human Player'', isAlive = False, hasSpoken = False\<rparr>),
          (''ai_1'', \<lparr>pid = ''ai_1'', isAI = True, pname = ''Player ai_1'', isAlive = True, hasSpoken = False\<rparr>),
          (''ai_2'', \<lparr>pid = ''ai_2'', isAI = True, pname = ''Player ai_2'', isAlive = True, hasSpoken = False\<rparr>)],
       roles = [(''h'', Villager), (''ai_1'', Werewolf), (''ai_2'', Villager)],
       isNight = False, currentDay = 1, phase = PoliceElection, deadPlayers = [''h''],
       votes = [(''h'', ''ai_1'')], police = None, currentSpeaker = Some ''h'',
       speakQueue = [''ai_1'', ''ai_2''], gameStarted = True,
       emitted = [GameStarted, PoliceElectionStarted, NextSpeaker ''h'', Vote ''h'' ''ai_1'',
                  PlayerDied ''h''] \<rparr>"

text \<open>The same ballot after \<open>ai_2\<close> has been killed as well: \<open>ai_1\<close> is the only living player.\<close>

definition demo_stale2 :: game_state where
  "demo_stale2 = killPlayer ''ai_2'' demo_stale"

text \<open>
  The day of \<open>demo_ballot\<close> with another ballot: every living player has voted once, and
  all three for \<open>ghost\<close>, an id that is no player.
\<close>

definition demo_ghost :: game_state where
  "demo_ghost = demo_day\<lparr>speakQueue := [],
                  votes := [(''h'', ''ghost''), (''ai_1'', ''ghost''), (''ai_2'', ''ghost'')]\<rparr>"

text \<open>
  Managers for the three-player game: after \<open>startGame\<close> with the draws 1 and 0 (\<open>ai_1\<close>
  is the werewolf, \<open>h\<close> is the current speaker and the two AI players wait in the queue),
  and the night of \<open>demo_manager_hw\<close> after the human werewolf, still the current speaker,
  has been killed.
\<close>

definition demo_manager_election :: manager where
  "demo_manager_election =
     \<lparr> state = demo3_roles\<lparr>isNight := False, currentDay := 1, phase := PoliceElection,
                 currentSpeaker := Some ''h'', speakQueue := [''ai_1'', ''ai_2''], gameStarted := True,
                 emitted := [GameStarted, PoliceElectionStarted, NextSpeaker ''h'']\<rparr>,
       aiCharacters = [(''ai_1'', demo_character ''ai_1'' Werewolf),
                       (''ai_2'', demo_character ''ai_2'' Villager)],
       witchPotions = [], sent = [], synthesized = [] \<rparr>"

definition demo_manager_hw_dead :: manager where
  "demo_manager_hw_dead = demo_manager_hw\<lparr>state := killPlayer ''h'' (state demo_manager_hw)\<rparr>"

section \<open>Notions of the specification\<close>

text \<open>
  The tally of a ballot in the words of the specification: the number of votes a target
  has, the targets in the order in which the count first meets them, and the plurality
  winner, which is the first target in that order whose count no other target exceeds.
\<close>

definition vote_count :: "(string \<times> string) list \<Rightarrow> string \<Rightarrow> nat" where
  "vote_count vs t = length (filter (\<lambda>(_, t'). t' = t) vs)"

definition discovery_order :: "(string \<times> string) list \<Rightarrow> string list" where
  "discovery_order vs = rev (remdups (rev (map snd vs)))"

definition is_plurality_winner :: "(string \<times> string) list \<Rightarrow> string \<Rightarrow> bool" where
  "is_plurality_winner vs w \<longleftrightarrow>
     (\<exists>pre post. discovery_order vs = pre @ w # post
        \<and> (\<forall>t \<in> set pre. vote_count vs t < vote_count vs w)
        \<and> (\<forall>t \<in> set post. vote_count vs t \<le> vote_count vs w))"

text \<open>The players named by the \<open>playerEliminated\<close> events of a trace, in order.\<close>

fun eliminated_of :: "event \<Rightarrow> string option" where
  "eliminated_of (PlayerEliminated i) = Some i"
| "eliminated_of _ = None"

definition eliminations :: "event list \<Rightarrow> string list" where
  "eliminations es = List.map_filter eliminated_of es"


text \<open>The same state with the events \<open>es\<close> emitted before everything else.\<close>

definition with_history :: "event list \<Rightarrow> game_state \<Rightarrow> game_state" where
  "with_history es s = s\<lparr>emitted := es @ emitted s\<rparr>"

text \<open>The ids of the living players.\<close>

definition living_ids :: "game_state \<Rightarrow> string set" where
  "living_ids s = {i. \<exists>p. map_of (players s) i = Some p \<and> isAlive p}"


text \<open>
  The living players whose role is werewolf, and the living players whose role is not
  werewolf (a player without role counts among the latter), as sets of ids.
\<close>

definition living_werewolf_ids :: "game_state \<Rightarrow> string set" where
  "living_werewolf_ids s =
     {i. \<exists>p. map_of (players s) i = Some p \<and> isAlive p \<and> map_of (roles s) i = Some Werewolf}"

definition living_other_ids :: "game_state \<Rightarrow> string set" where
  "living_other_ids s =
     {i. \<exists>p. map_of (players s) i = Some p \<and> isAlive p \<and> map_of (roles s) i \<noteq> Some Werewolf}"

section \<open>Properties of the role assignment\<close>

lemma numWerewolves_ceiling: "int (numWerewolves n) = \<lceil>real n / 3\<rceil>"
  unfolding numWerewolves_def
  by (rule sym, rule ceiling_unique) (auto simp: field_simps; presburger)+

lemma numVillagers_nonneg: "0 \<le> numVillagers n"
  unfolding numVillagers_def numWerewolves_def numSeers_def numWitches_def numHunters_def
  by (auto; presburger)

lemma role_pool_Inr:
  "role_pool n = Inr (replicate (numWerewolves n) Werewolf @ replicate (nat (numVillagers n)) Villager
      @ replicate (numSeers n) Seer @ replicate (numWitches n) Witch @ replicate (numHunters n) Hunter)"
  using numVillagers_nonneg [of n] by (simp add: role_pool_def Array_fill_def)

lemma role_pool_length: "role_pool n = Inr pool \<Longrightarrow> length pool = n"
  using numVillagers_nonneg [of n] unfolding role_pool_Inr
  by (auto simp: numVillagers_def)

lemma shuffle_from_mset:
  "k < length rs \<Longrightarrow> mset (shuffle_from k draws rs) = mset rs"
proof (induction k arbitrary: draws rs)
  case 0
  then show ?case by simp
next
  case (Suc k)
  define j where "j = (case draws of [] \<Rightarrow> 0 | d # _ \<Rightarrow> d mod (Suc k + 1))"
  have j: "j < length rs" using Suc.prems 
    by (auto simp: j_def split: list.splits intro: less_le_trans [OF mod_less_divisor])
  let ?rs = "rs[Suc k := rs ! j, j := rs ! Suc k]"
  have "mset ?rs = mset rs" using mset_swap [OF j Suc.prems] .
  moreover have "k < length ?rs" using Suc.prems by simp
  ultimately show ?case using Suc.IH [of ?rs "tl draws"] by (simp add: Let_def j_def)
qed

lemma shuffle_mset: "mset (shuffle draws rs) = mset rs"
  by (cases rs) (simp_all add: shuffle_def shuffle_from_mset)

lemma shuffle_length: "length (shuffle draws rs) = length rs"
  using shuffle_mset [of draws rs] by (metis size_mset)

lemma fold_update_map_of:
  "distinct (map fst kvs) \<Longrightarrow>
   map_of (fold (\<lambda>(k, v) m. AList.update k v m) kvs m) x =
     (case map_of kvs x of Some v \<Rightarrow> Some v | None \<Rightarrow> map_of m x)"
proof (induction kvs arbitrary: m)
  case Nil
  then show ?case by simp
next
  case (Cons kv kvs)
  obtain k v where kv: "kv = (k, v)" by (cases kv)
  from Cons.prems kv have "map_of kvs k = None"
    by (simp add: map_of_eq_None_iff)
  with Cons show ?case by (simp add: kv update_conv' split: option.splits)
qed

text \<open>
  Claim C4. For every player count \<open>N\<close> with \<open>3 \<le> N \<le> 20\<close>, role assignment computes
  \<open>ceil(N/3)\<close> werewolves, one seer and one witch from six players on, one hunter from
  nine players on, and villagers for the rest; the counts add up to \<open>N\<close>, the number of
  villagers is not negative, \<open>assignRoles\<close> does not throw, and the roles it gives to the
  players, taken in roster order, are the pool in some order: every player gets exactly
  one role of the pool, whatever the random draws are.
\<close>

theorem assignRoles_distribution:
  assumes "3 \<le> N" and "N \<le> 20"
    and "length (players s) = N" and "distinct (map fst (players s))"
  shows "int (numWerewolves N) = \<lceil>real N / 3\<rceil>
     \<and> numSeers N = (if 6 \<le> N then 1 else 0)
     \<and> numWitches N = (if 6 \<le> N then 1 else 0)
     \<and> numHunters N = (if 9 \<le> N then 1 else 0)
     \<and> numVillagers N = int N - int (numWerewolves N) - int (numSeers N) - int (numWitches N) - int (numHunters N)
     \<and> int (numWerewolves N) + int (numSeers N) + int (numWitches N) + int (numHunters N) + numVillagers N = int N
     \<and> 0 \<le> numVillagers N
     \<and> (\<exists>s' assigned.
           assignRoles draws s = Inr s'
         \<and> map (map_of (roles s')) (map fst (players s)) = map Some assigned
         \<and> mset assigned =
             replicate_mset (numWerewolves N) Werewolf + replicate_mset (nat (numVillagers N)) Villager
             + replicate_mset (numSeers N) Seer + replicate_mset (numWitches N) Witch
             + replicate_mset (numHunters N) Hunter)"
proof -
  let ?ids = "map fst (players s)"
  let ?pool = "replicate (numWerewolves N) Werewolf @ replicate (nat (numVillagers N)) Villager
      @ replicate (numSeers N) Seer @ replicate (numWitches N) Witch @ replicate (numHunters N) Hunter"
  let ?assigned = "shuffle draws ?pool"
  let ?m = "fold (\<lambda>(playerId, r) m. AList.update playerId r m) (zip ?ids ?assigned) (roles s)"
  have len: "length ?assigned = length ?ids"
    using role_pool_length [OF role_pool_Inr, of N] assms(3) by (simp add: shuffle_length)
  have dz: "distinct (map fst (zip ?ids ?assigned))"
    using assms(4) len by simp
  have run: "assignRoles draws s = Inr (s\<lparr>roles := ?m\<rparr>)"
    using assms(3) by (simp add: assignRoles_def role_pool_Inr)
  have "map_of ?m (?ids ! i) = Some (?assigned ! i)" if "i < length ?ids" for i
  proof -
    have "map_of (zip ?ids ?assigned) (?ids ! i) = Some (?assigned ! i)"
      using len that assms(4) by (intro map_of_zip_nth) simp_all
    then show ?thesis
      by (simp only: fold_update_map_of [OF dz] option.case)
  qed
  then have look: "map (map_of ?m) ?ids = map Some ?assigned"
    using len by (intro nth_equalityI) simp_all
  have ms: "mset ?assigned =
             replicate_mset (numWerewolves N) Werewolf + replicate_mset (nat (numVillagers N)) Villager
             + replicate_mset (numSeers N) Seer + replicate_mset (numWitches N) Witch
             + replicate_mset (numHunters N) Hunter"
    by (simp add: shuffle_mset)
  have ex: "\<exists>s' assigned.
           assignRoles draws s = Inr s'
         \<and> map (map_of (roles s')) (map fst (players s)) = map Some assigned
         \<and> mset assigned =
             replicate_mset (numWerewolves N) Werewolf + replicate_mset (nat (numVillagers N)) Villager
             + replicate_mset (numSeers N) Seer + replicate_mset (numWitches N) Witch
             + replicate_mset (numHunters N) Hunter"
    using run look ms by (intro exI [of _ "s\<lparr>roles := ?m\<rparr>"] exI [of _ ?assigned]) simp
  have sum: "int (numWerewolves N) + int (numSeers N) + int (numWitches N) + int (numHunters N) + numVillagers N = int N"
    by (simp add: numVillagers_def)
  show ?thesis
    using numWerewolves_ceiling [of N] numVillagers_nonneg [of N] sum ex
    by (simp add: numSeers_def numWitches_def numHunters_def numVillagers_def)
qed

lemma demo3_players:
  "map fst (players demo3) = [''h'', ''ai_1'', ''ai_2'']"
  by (simp add: demo3_def addPlayer_def new_GameState_def)

theorem assignRoles_distribution_witness:
  "(3::nat) \<le> 3 \<and> (3::nat) \<le> 20 \<and> length (players demo3) = 3
   \<and> distinct (map fst (players demo3))
   \<and> numWerewolves 3 = 1 \<and> numVillagers 3 = 2
   \<and> (\<exists>s' assigned. assignRoles [1, 0] demo3 = Inr s'
        \<and> map (map_of (roles s')) (map fst (players demo3)) = map Some assigned
        \<and> mset assigned = replicate_mset 1 Werewolf + replicate_mset 2 Villager)"
proof -
  have l: "length (players demo3) = 3" and d: "distinct (map fst (players demo3))"
    using demo3_players by (simp_all add: demo3_def addPlayer_def new_GameState_def)
  have w: "numWerewolves 3 = 1" and v: "numVillagers 3 = 2" and z: "numSeers 3 = 0" "numWitches 3 = 0" "numHunters 3 = 0"
    by (simp_all add: numWerewolves_def numVillagers_def numSeers_def numWitches_def numHunters_def)
  show ?thesis
    using assignRoles_distribution [of 3 demo3 "[1, 0]", OF _ _ l d] l d
    by (simp add: w v z)
qed

section \<open>Properties of the win check\<close>

text \<open>
  With distinct roster keys, the two numbers \<open>checkGameEnd\<close> computes are the sizes of the
  two sets of the specification.
\<close>

lemma length_filter_keys:
  assumes "distinct (map fst ps)"
  shows "length (filter (\<lambda>(i, p). Q i p) ps) = card {i. \<exists>p. map_of ps i = Some p \<and> Q i p}"
proof -
  let ?f = "filter (\<lambda>(i, p). Q i p) ps"
  have d: "distinct (map fst ?f)" using assms by (rule distinct_map_filter)
  have "set (map fst ?f) = {i. \<exists>p. map_of ps i = Some p \<and> Q i p}"
    using assms by (auto simp: map_of_eq_Some_iff image_iff) 
  then show ?thesis using distinct_card [OF d] by simp
qed

lemma livingWerewolves_card:
  "distinct (map fst (players s)) \<Longrightarrow> livingWerewolves s = card (living_werewolf_ids s)"
  unfolding livingWerewolves_def livingPlayers_def living_werewolf_ids_def
  using length_filter_keys [of "players s" "\<lambda>i p. isAlive p \<and> map_of (roles s) i = Some Werewolf"]
  by (simp add: case_prod_unfold conj_commute)

lemma livingVillagers_card:
  "distinct (map fst (players s)) \<Longrightarrow> livingVillagers s = card (living_other_ids s)"
  unfolding livingVillagers_def livingPlayers_def living_other_ids_def
  using length_filter_keys [of "players s" "\<lambda>i p. isAlive p \<and> map_of (roles s) i \<noteq> Some Werewolf"]
  by (simp add: case_prod_unfold conj_commute)

lemma emit_neq: "emit e s \<noteq> s" "e \<noteq> e' \<Longrightarrow> emit e s \<noteq> emit e' s"
  by (auto simp: emit_def dest: arg_cong [where f = emitted])

text \<open>
  Claim C2, as amended. \<open>checkGameEnd\<close> returns true and emits \<open>gameEnded('villagers')\<close>
  if and only if no living player is a werewolf; it returns true and emits
  \<open>gameEnded('werewolves')\<close> if and only if no living player is a non-werewolf and at
  least one living player is a werewolf; it returns false, emitting nothing, in all other
  states. The first test wins when both counts are zero.
\<close>

theorem checkGameEnd_outcome:
  assumes "distinct (map fst (players s))"
  shows "(checkGameEnd s = (True, emit (GameEnded Villagers) s) \<longleftrightarrow> card (living_werewolf_ids s) = 0)
       \<and> (checkGameEnd s = (True, emit (GameEnded Werewolves) s) \<longleftrightarrow>
            card (living_other_ids s) = 0 \<and> card (living_werewolf_ids s) \<noteq> 0)
       \<and> (checkGameEnd s = (False, s) \<longleftrightarrow>
            card (living_werewolf_ids s) \<noteq> 0 \<and> card (living_other_ids s) \<noteq> 0)"
  using emit_neq(2) [of "GameEnded Villagers" "GameEnded Werewolves" s]
  by (auto simp: checkGameEnd_def livingWerewolves_card [OF assms, symmetric]
        livingVillagers_card [OF assms, symmetric])

lemma demo3_all_dead_eval:
  "players demo3_all_dead =
     [(''h'', \<lparr>pid = ''h'', isAI = False, pname = ''Human Player'', isAlive = False, hasSpoken = False\<rparr>),
      (''ai_1'', \<lparr>pid = ''ai_1'', isAI = True, pname = ''Player ai_1'', isAlive = False, hasSpoken = False\<rparr>),
      (''ai_2'', \<lparr>pid = ''ai_2'', isAI = True, pname = ''Player ai_2'', isAlive = False, hasSpoken = False\<rparr>)]"
  by (simp add: demo3_all_dead_def demo3_roles_def demo3_def addPlayer_def new_GameState_def killPlayer_def emit_def Set_add_def)

text \<open>
  The claim as stated fails where nobody is alive: the number of living non-werewolves
  is 0, yet the event carries \<open>villagers\<close>, not \<open>werewolves\<close>.
\<close>

theorem checkGameEnd_counterexample:
  "card (living_other_ids demo3_all_dead) = 0
   \<and> checkGameEnd demo3_all_dead = (True, emit (GameEnded Villagers) demo3_all_dead)
   \<and> checkGameEnd demo3_all_dead \<noteq> (True, emit (GameEnded Werewolves) demo3_all_dead)"
proof -
  have "living_other_ids demo3_all_dead = {}"
    by (auto simp: living_other_ids_def demo3_all_dead_eval split: if_splits)
  moreover have "checkGameEnd demo3_all_dead = (True, emit (GameEnded Villagers) demo3_all_dead)"
    by (simp add: checkGameEnd_def livingWerewolves_def livingPlayers_def demo3_all_dead_eval)
  ultimately show ?thesis using emit_neq(2) [of "GameEnded Villagers" "GameEnded Werewolves"] by simp
qed

theorem checkGameEnd_outcome_witness:
  "distinct (map fst (players demo3_roles))
   \<and> checkGameEnd demo3_roles = (False, demo3_roles)
   \<and> card (living_werewolf_ids demo3_roles) \<noteq> 0 \<and> card (living_other_ids demo3_roles) \<noteq> 0"
proof -
  have d: "distinct (map fst (players demo3_roles))"
    by (simp add: demo3_roles_def demo3_def addPlayer_def new_GameState_def)
  have "checkGameEnd demo3_roles = (False, demo3_roles)"
    by (simp add: checkGameEnd_def livingWerewolves_def livingVillagers_def livingPlayers_def
          demo3_roles_def demo3_def addPlayer_def new_GameState_def)
  then show ?thesis using checkGameEnd_outcome [OF d] d by simp
qed

section \<open>Properties of the phase functions\<close>

text \<open>The four branches of \<open>run\<close>, one equation each.\<close>

lemma run_StartNight:
  "run StartNight s =
     run ProcessWerewolves (emit (NightStarted (currentDay s)) (s\<lparr>isNight := True, phase := Night\<rparr>))"
  by (subst run.simps) simp

lemma run_ProcessWerewolves:
  "run ProcessWerewolves s =
     (case filter_living_role Werewolf (players s) (roles s) of
        Inl e \<Rightarrow> Some (Thrown e, s)
      | Inr werewolves \<Rightarrow>
          run ProcessNextSpeaker (emit (WerewolvesPhaseStarted werewolves) (s\<lparr>speakQueue := werewolves\<rparr>)))"
  by (subst run.simps) simp

lemma run_ProcessNextSpeaker:
  "run ProcessNextSpeaker s =
     (case speakQueue s of
        [] \<Rightarrow> run ProcessAllPlayersSpoken s
      | p # q \<Rightarrow> Some (Returned, emit (NextSpeaker p) (s\<lparr>currentSpeaker := Some p, speakQueue := q\<rparr>)))"
  by (subst run.simps) simp

lemma run_ProcessAllPlayersSpoken:
  "run ProcessAllPlayersSpoken s = run StartNight (s\<lparr>phase := Night\<rparr>)"
  by (subst run.simps) simp

text \<open>With no living werewolf the four functions call each other for ever.\<close>

lemma run_no_result:
  assumes "run c s = Some y"
  shows "\<not> (filter_living_role Werewolf (players s) (roles s) = Inr []
            \<and> (c = ProcessNextSpeaker \<longrightarrow> speakQueue s = []))"
proof (rule run.raw_induct [where P = "\<lambda>c s y. \<not> (filter_living_role Werewolf (players s) (roles s) = Inr []
            \<and> (c = ProcessNextSpeaker \<longrightarrow> speakQueue s = []))", OF _ assms], goal_cases)
  case (1 f c s y)
  show ?case
  proof
    assume inv: "filter_living_role Werewolf (players s) (roles s) = Inr []
            \<and> (c = ProcessNextSpeaker \<longrightarrow> speakQueue s = [])"
    show False
    proof (cases c)
      case StartNight
      with 1(2) have "f ProcessWerewolves (emit (NightStarted (currentDay s)) (s\<lparr>isNight := True, phase := Night\<rparr>)) = Some y"
        by simp
      from 1(1) [OF this] inv show False by (simp add: emit_def)
    next
      case ProcessWerewolves
      with 1(2) inv have "f ProcessNextSpeaker (emit (WerewolvesPhaseStarted []) (s\<lparr>speakQueue := []\<rparr>)) = Some y"
        by simp
      from 1(1) [OF this] inv show False by (simp add: emit_def)
    next
      case ProcessNextSpeaker
      with 1(2) inv have "f ProcessAllPlayersSpoken s = Some y" by simp
      from 1(1) [OF this] inv show False by simp
    next
      case ProcessAllPlayersSpoken
      with 1(2) have "f StartNight (s\<lparr>phase := Night\<rparr>) = Some y" by simp
      from 1(1) [OF this] inv show False by simp
    qed
  qed
qed

text \<open>
  So \<open>startNight\<close> has a closed form: it throws when a werewolf of the role map is no
  player, it does not return when no werewolf is alive, and otherwise it returns with the
  first living werewolf as current speaker.
\<close>

lemma startNight_closed:
  "startNight s =
     (let s1 = emit (NightStarted (currentDay s)) (s\<lparr>isNight := True, phase := Night\<rparr>)
      in case filter_living_role Werewolf (players s) (roles s) of
           Inl e \<Rightarrow> Some (Thrown e, s1)
         | Inr [] \<Rightarrow> None
         | Inr (w # ws) \<Rightarrow>
             Some (Returned,
                   emit (NextSpeaker w)
                     ((emit (WerewolvesPhaseStarted (w # ws)) (s1\<lparr>speakQueue := w # ws\<rparr>))
                        \<lparr>currentSpeaker := Some w, speakQueue := ws\<rparr>)))"
proof (cases "filter_living_role Werewolf (players s) (roles s)")
  case (Inl e)
  then show ?thesis
    by (simp add: startNight_def run_StartNight run_ProcessWerewolves emit_def)
next
  case (Inr ws)
  show ?thesis
  proof (cases ws)
    case Nil
    have "run StartNight s = None"
    proof (cases "run StartNight s")
      case (Some y)
      from run_no_result [OF this] Inr Nil show ?thesis by simp
    qed simp
    with Inr Nil show ?thesis by (simp add: startNight_def)
  next
    case (Cons w ws')
    with Inr show ?thesis
      by (simp add: startNight_def run_StartNight run_ProcessWerewolves run_ProcessNextSpeaker emit_def)
  qed
qed

lemma processNextSpeaker_closed:
  "processNextSpeaker s =
     (case speakQueue s of
        [] \<Rightarrow> startNight (s\<lparr>phase := Night\<rparr>)
      | p # q \<Rightarrow> Some (Returned, emit (NextSpeaker p) (s\<lparr>currentSpeaker := Some p, speakQueue := q\<rparr>)))"
  by (simp add: processNextSpeaker_def startNight_def run_ProcessNextSpeaker run_ProcessAllPlayersSpoken
        split: list.splits)

section \<open>Transitions after the end of the game\<close>

text \<open>
  No function of \<open>GameState\<close> reads the trace of emitted events, and \<open>checkGameEnd\<close>
  writes nothing else: a state after \<open>gameEnded\<close> differs from one before it in nothing
  a transition could test.
\<close>

lemma emit_with_history: "emit e (with_history es s) = with_history es (emit e s)"
  by (simp add: emit_def with_history_def)

lemma killPlayer_with_history: "killPlayer i (with_history es s) = with_history es (killPlayer i s)"
  by (simp add: killPlayer_def emit_def with_history_def split: option.splits)

lemma checkGameEnd_with_history:
  "checkGameEnd (with_history es s) = apsnd (with_history es) (checkGameEnd s)"
  by (simp add: checkGameEnd_def livingWerewolves_def livingVillagers_def livingPlayers_def
        emit_def with_history_def)

lemma startDay_with_history: "startDay (with_history es s) = apsnd (with_history es) (startDay s)"
  by (simp add: startDay_def emit_def with_history_def)

lemma processWitch_with_history:
  "processWitch (with_history es s) = apsnd (with_history es) (processWitch s)"
  by (simp add: processWitch_def startDay_def emit_def with_history_def split: sum.splits option.splits)

lemma processSeer_with_history:
  "processSeer (with_history es s) = apsnd (with_history es) (processSeer s)"
  using processWitch_with_history [of es s]
  by (simp add: processSeer_def emit_def with_history_def split: sum.splits option.splits)

lemma startNight_with_history:
  "startNight (with_history es s) = map_option (apsnd (with_history es)) (startNight s)"
  by (simp add: startNight_closed emit_def with_history_def Let_def split: sum.splits list.splits)

lemma processNextSpeaker_with_history:
  "processNextSpeaker (with_history es s) = map_option (apsnd (with_history es)) (processNextSpeaker s)"
proof (cases "speakQueue s")
  case Nil
  have "(with_history es s)\<lparr>phase := Night\<rparr> = with_history es (s\<lparr>phase := Night\<rparr>)"
    by (simp add: with_history_def)
  moreover have "speakQueue (with_history es s) = []"
    using Nil by (simp add: with_history_def)
  ultimately show ?thesis
    using Nil startNight_with_history [of es "s\<lparr>phase := Night\<rparr>"]
    by (simp add: processNextSpeaker_closed)
next
  case (Cons p q)
  then show ?thesis
    by (simp add: processNextSpeaker_closed emit_def with_history_def)
qed

lemma processVotes_with_history:
  "processVotes (with_history es s) = map_option (apsnd (with_history es)) (processVotes s)"
proof -
  define s1 where "s1 = (case snd (mostVotes (countVotes (votes s))) of
                  None \<Rightarrow> s
                | Some e \<Rightarrow> if e = [] then s else emit (PlayerEliminated e) (killPlayer e s))"
  have a: "(case snd (mostVotes (countVotes (votes s))) of
                  None \<Rightarrow> with_history es s
                | Some e \<Rightarrow> if e = [] then with_history es s
                    else emit (PlayerEliminated e) (killPlayer e (with_history es s)))
           = with_history es s1"
    by (simp add: s1_def killPlayer_with_history emit_with_history split: option.splits)
  have b: "(with_history es s1)\<lparr>votes := []\<rparr> = with_history es (s1\<lparr>votes := []\<rparr>)"
    by (simp add: with_history_def)
  have v: "votes (with_history es s) = votes s" by (simp add: with_history_def)
  obtain ended s3 where c: "checkGameEnd (s1\<lparr>votes := []\<rparr>) = (ended, s3)" by force
  have n: "isNight (with_history es s3) = isNight s3" by (simp add: with_history_def)
  show ?thesis
    unfolding processVotes_def Let_def v a b checkGameEnd_with_history
    unfolding s1_def [symmetric] c
    by (simp add: n processSeer_with_history startNight_with_history)
qed

text \<open>
  Claim C6, as amended. The end of the game is recorded nowhere in the state:
  \<open>checkGameEnd\<close> changes nothing but the trace of emitted events, and \<open>startNight\<close>,
  \<open>startDay\<close>, \<open>processVotes\<close> and \<open>processNextSpeaker\<close> behave after any history of
  events (one that holds \<open>gameEnded\<close> included) exactly as they do without it: same
  outcome, same new state, same new events. No transition is refused because the game
  has ended.
\<close>

theorem transitions_ignore_history:
  "startNight (with_history es s) = map_option (apsnd (with_history es)) (startNight s)
   \<and> startDay (with_history es s) = apsnd (with_history es) (startDay s)
   \<and> processVotes (with_history es s) = map_option (apsnd (with_history es)) (processVotes s)
   \<and> processNextSpeaker (with_history es s) = map_option (apsnd (with_history es)) (processNextSpeaker s)
   \<and> (snd (checkGameEnd s))\<lparr>emitted := emitted s\<rparr> = s"
  by (simp add: startNight_with_history startDay_with_history processVotes_with_history
        processNextSpeaker_with_history checkGameEnd_def emit_def)

lemma demo3_eval:
  "demo3 = \<lparr> players =
         [(''h'', \<lparr>pid = ''h'', isAI = False, pname = ''Human Player'', isAlive = True, hasSpoken = False\<rparr>),
          (''ai_1'', \<lparr>pid = ''ai_1'', isAI = True, pname = ''Player ai_1'', isAlive = True, hasSpoken = False\<rparr>),
          (''ai_2'', \<lparr>pid = ''ai_2'', isAI = True, pname = ''Player ai_2'', isAlive = True, hasSpoken = False\<rparr>)],
       roles = [], isNight = True, currentDay = 0, phase = Waiting, deadPlayers = [],
       votes = [], police = None, currentSpeaker = None, speakQueue = [],
       gameStarted = False, emitted = [] \<rparr>"
  by (simp add: demo3_def addPlayer_def new_GameState_def)

lemma demo_started:
  "startGame [1, 0] demo3 = Some (Returned, demo3\<lparr>roles := [(''h'', Villager), (''ai_1'', Werewolf), (''ai_2'', Villager)],
       isNight := False, currentDay := 1, phase := PoliceElection,
       currentSpeaker := Some ''h'', speakQueue := [''ai_1'', ''ai_2''], gameStarted := True,
       emitted := [GameStarted, PoliceElectionStarted, NextSpeaker ''h'']\<rparr>)"
  by code_simp

lemma demo_ended_run_eval: "demo_ended_run = Some (Returned, demo_ended)"
  by code_simp

text \<open>
  The claim as stated fails on the game of \<open>demo_ended_run\<close>: after \<open>gameEnded\<close> has
  been emitted, \<open>processNextSpeaker\<close> returns normally and makes the eliminated player the
  current speaker, and \<open>processVotes\<close> returns normally too.
\<close>

theorem ended_game_counterexample:
  "demo_ended_run = Some (Returned, demo_ended)
   \<and> GameEnded Villagers \<in> set (emitted demo_ended)
   \<and> processNextSpeaker demo_ended =
       Some (Returned, emit (NextSpeaker ''ai_1'') (demo_ended\<lparr>currentSpeaker := Some ''ai_1'', speakQueue := [''ai_2'']\<rparr>))
   \<and> processVotes demo_ended = Some (Returned, emit (GameEnded Villagers) demo_ended)"
  by code_simp


section \<open>Properties of the speaker queue\<close>

lemma livingPlayers_ids:
  assumes "distinct (map fst (players s))"
  shows "distinct (map fst (livingPlayers s))" and "set (map fst (livingPlayers s)) = living_ids s"
proof -
  show "distinct (map fst (livingPlayers s))"
    unfolding livingPlayers_def using assms by (rule distinct_map_filter)
  show "set (map fst (livingPlayers s)) = living_ids s"
    using assms by (auto simp: livingPlayers_def living_ids_def map_of_eq_Some_iff image_iff)
qed

lemma startNight_frame:
  assumes "startNight s = Some (r, s')"
  shows "players s' = players s" and "votes s' = votes s" and "phase s' = Night"
    and "roles s' = roles s" and "deadPlayers s' = deadPlayers s"
  using assms
  by (auto simp: startNight_closed emit_def Let_def split: sum.splits list.splits)

lemma pns_pop:
  "speakQueue s = p # q \<Longrightarrow>
       processNextSpeaker s =
         Some (Returned, emit (NextSpeaker p) (s\<lparr>currentSpeaker := Some p, speakQueue := q\<rparr>))"
  by (simp add: processNextSpeaker_closed)

lemma pns_frame:
  assumes "processNextSpeaker s = Some (r, s')"
  shows "players s' = players s \<and> votes s' = votes s"
proof (cases "speakQueue s")
  case Nil
  with assms have "startNight (s\<lparr>phase := Night\<rparr>) = Some (r, s')"
    by (simp add: processNextSpeaker_closed)
  from startNight_frame(1,2) [OF this] show ?thesis by simp
next
  case (Cons p q)
  with assms show ?thesis by (auto simp: processNextSpeaker_closed emit_def)
qed

lemma pns_empty:
  assumes "speakQueue s = []"
  shows "processNextSpeaker s = processAllPlayersSpoken s"
    and "processAllPlayersSpoken s = startNight (s\<lparr>phase := Night\<rparr>)"
    and "processNextSpeaker s = Some (r, s') \<Longrightarrow> phase s' = Night"
proof -
  show a: "processNextSpeaker s = processAllPlayersSpoken s"
    using assms by (simp add: processNextSpeaker_def processAllPlayersSpoken_def run_ProcessNextSpeaker)
  show b: "processAllPlayersSpoken s = startNight (s\<lparr>phase := Night\<rparr>)"
    by (simp add: processAllPlayersSpoken_def startNight_def run_ProcessAllPlayersSpoken)
  show "phase s' = Night" if "processNextSpeaker s = Some (r, s')"
    using that startNight_frame(3) [of "s\<lparr>phase := Night\<rparr>" r s'] unfolding a b by simp
qed


text \<open>
  Claim C7, as amended. \<open>processNextSpeaker\<close> pops the first id of the speaking queue,
  makes it the current speaker and emits \<open>nextSpeaker\<close>; no call of it changes a player
  (\<open>hasSpoken\<close> is never written) or the ballot; on an empty queue it is
  \<open>processAllPlayersSpoken\<close>, which sets the phase to night and starts the night, so
  that a call that returns leaves the phase at night and no voting round is opened. The
  queue of all speakers is the one \<open>startPoliceElection\<close> builds: it holds every living
  player exactly once, in roster order.
\<close>

theorem processNextSpeaker_queue:
  "(\<forall>p q. speakQueue s = p # q \<longrightarrow>
       processNextSpeaker s =
         Some (Returned, emit (NextSpeaker p) (s\<lparr>currentSpeaker := Some p, speakQueue := q\<rparr>)))
   \<and> (\<forall>r s'. processNextSpeaker s = Some (r, s') \<longrightarrow> players s' = players s \<and> votes s' = votes s)
   \<and> (speakQueue s = [] \<longrightarrow>
         processNextSpeaker s = processAllPlayersSpoken s
       \<and> processAllPlayersSpoken s = startNight (s\<lparr>phase := Night\<rparr>)
       \<and> (\<forall>r s'. processNextSpeaker s = Some (r, s') \<longrightarrow> phase s' = Night))
   \<and> startPoliceElection s =
       processNextSpeaker (emit PoliceElectionStarted
         (s\<lparr>phase := PoliceElection, speakQueue := map fst (livingPlayers s)\<rparr>))
   \<and> (distinct (map fst (players s)) \<longrightarrow>
         distinct (map fst (livingPlayers s)) \<and> set (map fst (livingPlayers s)) = living_ids s)"
proof (intro conjI allI impI)
  fix p q assume "speakQueue s = p # q"
  then show "processNextSpeaker s =
         Some (Returned, emit (NextSpeaker p) (s\<lparr>currentSpeaker := Some p, speakQueue := q\<rparr>))"
    by (rule pns_pop)
next
  fix r s' assume "processNextSpeaker s = Some (r, s')"
  from pns_frame [OF this] show "players s' = players s" and "votes s' = votes s" by blast+
next
  assume e: "speakQueue s = []"
  show "processNextSpeaker s = processAllPlayersSpoken s" by (rule pns_empty(1) [OF e])
  show "processAllPlayersSpoken s = startNight (s\<lparr>phase := Night\<rparr>)" by (rule pns_empty(2) [OF e])
  fix r s' assume "processNextSpeaker s = Some (r, s')"
  then show "phase s' = Night" by (rule pns_empty(3) [OF e])
next
  show "startPoliceElection s =
       processNextSpeaker (emit PoliceElectionStarted
         (s\<lparr>phase := PoliceElection, speakQueue := map fst (livingPlayers s)\<rparr>))"
    by (simp add: startPoliceElection_def)
next
  assume d: "distinct (map fst (players s))"
  show "distinct (map fst (livingPlayers s))" by (rule livingPlayers_ids(1) [OF d])
  show "set (map fst (livingPlayers s)) = living_ids s" by (rule livingPlayers_ids(2) [OF d])
qed

theorem processNextSpeaker_queue_witness:
  "speakQueue demo_day = [''ai_1''] \<and> distinct (map fst (players demo_day))
   \<and> processNextSpeaker demo_day = Some (Returned, demo_day_spoken)
   \<and> players demo_day_spoken = players demo_day
   \<and> speakQueue demo_day_spoken = []
   \<and> processNextSpeaker demo_day_spoken = processAllPlayersSpoken demo_day_spoken
   \<and> set (map fst (livingPlayers demo_day)) = living_ids demo_day"
proof -
  have q: "speakQueue demo_day = [''ai_1'']" and d: "distinct (map fst (players demo_day))"
    and e: "speakQueue demo_day_spoken = []"
    by (simp_all add: demo_day_spoken_def demo_day_def demo3_roles_def demo3_eval emit_def)
  have t: "\<forall>p q. speakQueue demo_day = p # q \<longrightarrow>
       processNextSpeaker demo_day =
         Some (Returned, emit (NextSpeaker p) (demo_day\<lparr>currentSpeaker := Some p, speakQueue := q\<rparr>))"
    and f: "\<forall>r s'. processNextSpeaker demo_day = Some (r, s') \<longrightarrow> players s' = players demo_day \<and> votes s' = votes demo_day"
    and l: "distinct (map fst (players demo_day)) \<longrightarrow>
         distinct (map fst (livingPlayers demo_day)) \<and> set (map fst (livingPlayers demo_day)) = living_ids demo_day"
    using processNextSpeaker_queue [of demo_day] by blast+
  have p: "processNextSpeaker demo_day = Some (Returned, demo_day_spoken)"
    using t q unfolding demo_day_spoken_def by blast
  have f': "players demo_day_spoken = players demo_day" using f p by blast
  have n: "processNextSpeaker demo_day_spoken = processAllPlayersSpoken demo_day_spoken"
    using processNextSpeaker_queue [of demo_day_spoken] e by blast
  show ?thesis using q d e p f' n l by blast
qed

text \<open>
  The claim as stated fails on a day with one speaker left: the pop leaves the speaker's
  \<open>hasSpoken\<close> at false, and the next call, on the empty queue, starts the night.
\<close>

theorem speaker_queue_counterexample:
  "phase demo_day = Day \<and> speakQueue demo_day = [''ai_1'']
   \<and> processNextSpeaker demo_day = Some (Returned, demo_day_spoken)
   \<and> map_of (players demo_day_spoken) ''ai_1'' =
       Some \<lparr>pid = ''ai_1'', isAI = True, pname = ''Player ai_1'', isAlive = True, hasSpoken = False\<rparr>
   \<and> speakQueue demo_day_spoken = []
   \<and> processNextSpeaker demo_day_spoken =
       Some (Returned,
             demo_day_spoken\<lparr>isNight := True, phase := Night, currentSpeaker := Some ''ai_1'',
               emitted := emitted demo_day_spoken @
                 [NightStarted 1, WerewolvesPhaseStarted [''ai_1''], NextSpeaker ''ai_1'']\<rparr>)"
  by code_simp

section \<open>Properties of the narration\<close>

lemma speak_state [simp]: "state (speak ev sp msg a m) = state m"
  by (simp add: speak_def Let_def)

lemma speak_witchPotions [simp]: "witchPotions (speak ev sp msg a m) = witchPotions m"
  by (simp add: speak_def Let_def)

lemma speak_sent:
  "sent (speak ev sp msg a m) =
     sent m @ [SpeakerInfo sp (if sp = ''Moderator'' then Some ''Moderator''
                               else map_option pname (map_of (players (state m)) sp))
                 (if sp = ''Moderator'' then ModeratorRole else PlayerRole (getPlayerRole (state m) sp)),
               GameLog (if sp = ''Moderator'' then Some ''Moderator''
                        else map_option pname (map_of (players (state m)) sp))
                 msg (clock ev (length (sent m))) (a \<noteq> None)]"
  by (simp add: speak_def Let_def)

lemma speak_synthesized:
  "synthesized (speak ev sp msg a m) =
     (if list_ex (\<lambda>pattern. pattern msg) skipTTSPatterns then synthesized m else synthesized m @ [msg])"
  by (simp add: speak_def Let_def)

lemma speak_aiCharacters:
  "aiCharacters (speak ev sp msg a m) =
     map (\<lambda>(k, character).
            (k, if (list_ex (\<lambda>pattern. pattern msg) skipTTSPatterns \<or> synthesizeOk ev msg)
                   \<and> (case a of None \<Rightarrow> True | Some ids \<Rightarrow> cid character \<in> set ids)
                then updateGameContext (sp @ '': '' @ msg) character else character))
         (aiCharacters m)"
proof -
  have "map (\<lambda>(k, character). (k, character)) xs = xs" for xs :: "(string \<times> ai_character) list"
    by (induction xs) auto
  then show ?thesis
    by (auto simp: speak_def Let_def)
qed

lemma speak_keys: "map fst (aiCharacters (speak ev sp msg a m)) = map fst (aiCharacters m)"
  by (simp add: speak_aiCharacters case_prod_unfold comp_def)

lemma map_of_mapped_None:
  "map_of (map (\<lambda>(k, v). (k, f k v)) xs) i = None \<longleftrightarrow> map_of xs i = None"
  by (induction xs) auto

lemma speak_lookup_None:
  "map_of (aiCharacters (speak ev sp msg a m)) i = None \<longleftrightarrow> map_of (aiCharacters m) i = None"
  unfolding speak_aiCharacters by (rule map_of_mapped_None)



section \<open>Properties of the suspended narration\<close>

lemma tellCharacters_fields [simp]:
  "state (tellCharacters sp msg a m) = state m"
  "sent (tellCharacters sp msg a m) = sent m"
  "synthesized (tellCharacters sp msg a m) = synthesized m"
  "witchPotions (tellCharacters sp msg a m) = witchPotions m"
  by (simp_all add: tellCharacters_def)

lemma tellCharacters_lookup_None:
  "map_of (aiCharacters (tellCharacters sp msg a m)) i = None \<longleftrightarrow> map_of (aiCharacters m) i = None"
  unfolding tellCharacters_def by (simp add: map_of_mapped_None)

lemma speak_split:
  "speak ev sp msg a m = speak_end ev sp msg a (speak_begin ev sp msg a m)"
  by (simp add: speak_def speak_begin_def speak_end_def tellCharacters_def Let_def)

lemma speak_begin_state [simp]: "state (speak_begin ev sp msg a m) = state m"
  by (simp add: speak_begin_def Let_def)

lemma speak_end_state [simp]: "state (speak_end ev sp msg a m) = state m"
  by (simp add: speak_end_def)

lemma speak_begin_sent: "prefix (sent m) (sent (speak_begin ev sp msg a m))"
  by (simp add: speak_begin_def Let_def)

lemma speak_begin_lookup_None:
  "map_of (aiCharacters (speak_begin ev sp msg a m)) i = None \<longleftrightarrow> map_of (aiCharacters m) i = None"
  by (simp add: speak_begin_def Let_def tellCharacters_lookup_None)

lemma speak_end_lookup_None:
  "map_of (aiCharacters (speak_end ev sp msg a m)) i = None \<longleftrightarrow> map_of (aiCharacters m) i = None"
  by (simp add: speak_end_def tellCharacters_lookup_None)

lemma listeners_state [simp]:
  "state (handleNightStarted_begin ev d m) = state m"
  "state (handleWerewolvesPhase_begin ev wv m) = state m"
  "state (handleNextSpeaker_begin ev p m) = state m"
  by (simp_all add: handleNightStarted_begin_def handleWerewolvesPhase_begin_def
        handleNextSpeaker_begin_def split: option.splits)

lemma listeners_sent:
  "prefix (sent m) (sent (handleNightStarted_begin ev d m))"
  "prefix (sent m) (sent (handleWerewolvesPhase_begin ev wv m))"
  "prefix (sent m) (sent (handleNextSpeaker_begin ev p m))"
  by (simp_all add: handleNightStarted_begin_def handleWerewolvesPhase_begin_def
        handleNextSpeaker_begin_def speak_begin_sent split: option.splits)

lemma listeners_lookup_None:
  "map_of (aiCharacters (handleNightStarted_begin ev d m)) i = None \<longleftrightarrow> map_of (aiCharacters m) i = None"
  "map_of (aiCharacters (handleWerewolvesPhase_begin ev wv m)) i = None \<longleftrightarrow> map_of (aiCharacters m) i = None"
  "map_of (aiCharacters (handleNextSpeaker_begin ev p m)) i = None \<longleftrightarrow> map_of (aiCharacters m) i = None"
proof -
  show "map_of (aiCharacters (handleNightStarted_begin ev d m)) i = None \<longleftrightarrow> map_of (aiCharacters m) i = None"
    unfolding handleNightStarted_begin_def by (rule speak_begin_lookup_None)
  show "map_of (aiCharacters (handleWerewolvesPhase_begin ev wv m)) i = None \<longleftrightarrow> map_of (aiCharacters m) i = None"
    unfolding handleWerewolvesPhase_begin_def by (rule speak_begin_lookup_None)
  show "map_of (aiCharacters (handleNextSpeaker_begin ev p m)) i = None \<longleftrightarrow> map_of (aiCharacters m) i = None"
  proof (cases "map_of (players (state m)) p")
    case None
    then show ?thesis by (simp only: handleNextSpeaker_begin_def option.case)
  next
    case (Some player)
    show ?thesis
    proof (cases "isAI player")
      case True
      with Some show ?thesis by (simp only: handleNextSpeaker_begin_def option.case if_True)
    next
      case False
      with Some show ?thesis
        by (simp only: handleNextSpeaker_begin_def option.case if_False speak_begin_lookup_None)
    qed
  qed
qed

section \<open>Properties of the cycle with listeners\<close>

lemma cycle_sent: "prefix (sent m) (sent (snd (run_with_listeners ev room c m)))"
proof (induction room arbitrary: c m)
  case 0
  then show ?case by simp
next
  case (Suc room)
  show ?case
  proof (cases c)
    case StartNight
    let ?a = "m\<lparr>state := emit (NightStarted (currentDay (state m)))
                                ((state m)\<lparr>isNight := True, phase := Night\<rparr>)\<rparr>"
    let ?m = "handleNightStarted_begin ev (currentDay (state m)) ?a"
    have "prefix (sent m) (sent ?m)"
      using listeners_sent(1) [of ?a ev "currentDay (state m)"] by simp
    also have "prefix (sent ?m) (sent (snd (run_with_listeners ev room ProcessWerewolves ?m)))"
      by (rule Suc.IH)
    finally show ?thesis using StartNight by simp
  next
    case ProcessWerewolves
    show ?thesis
    proof (cases "filter_living_role Werewolf (players (state m)) (roles (state m))")
      case (Inl e)
      with ProcessWerewolves show ?thesis by simp
    next
      case (Inr ws)
      let ?a = "m\<lparr>state := emit (WerewolvesPhaseStarted ws) ((state m)\<lparr>speakQueue := ws\<rparr>)\<rparr>"
      let ?m = "handleWerewolvesPhase_begin ev speakQueue ?a"
      have "prefix (sent m) (sent ?m)"
        using listeners_sent(2) [of ?a ev speakQueue] by simp
      also have "prefix (sent ?m) (sent (snd (run_with_listeners ev room ProcessNextSpeaker ?m)))"
        by (rule Suc.IH)
      finally show ?thesis using ProcessWerewolves Inr by simp
    qed
  next
    case ProcessNextSpeaker
    show ?thesis
    proof (cases "speakQueue (state m)")
      case Nil
      with ProcessNextSpeaker Suc.IH [of m ProcessAllPlayersSpoken] show ?thesis by simp
    next
      case (Cons p q)
      let ?a = "m\<lparr>state := emit (NextSpeaker p) ((state m)\<lparr>currentSpeaker := Some p, speakQueue := q\<rparr>)\<rparr>"
      from listeners_sent(3) [of ?a ev p] show ?thesis using ProcessNextSpeaker Cons by simp
    qed
  next
    case ProcessAllPlayersSpoken
    with Suc.IH [of "m\<lparr>state := (state m)\<lparr>phase := Night\<rparr>\<rparr>" StartNight] show ?thesis by simp
  qed
qed

text \<open>With no living werewolf the cycle ends in a \<open>RangeError\<close>, whatever room the stack has.\<close>

lemma cycle_overflow:
  "filter_living_role Werewolf (players (state m)) (roles (state m)) = Inr [] \<Longrightarrow>
   (c = ProcessNextSpeaker \<longrightarrow> speakQueue (state m) = []) \<Longrightarrow>
   fst (run_with_listeners ev room c m) = Thrown RangeError"
proof (induction room arbitrary: c m)
  case 0
  then show ?case by simp
next
  case (Suc room)
  show ?case
  proof (cases c)
    case StartNight
    let ?m = "handleNightStarted_begin ev (currentDay (state m))
               (m\<lparr>state := emit (NightStarted (currentDay (state m)))
                                ((state m)\<lparr>isNight := True, phase := Night\<rparr>)\<rparr>)"
    have "fst (run_with_listeners ev room ProcessWerewolves ?m) = Thrown RangeError"
      using Suc.prems(1) by (intro Suc.IH) (simp_all add: emit_def)
    then show ?thesis unfolding StartNight by simp
  next
    case ProcessWerewolves
    let ?m = "handleWerewolvesPhase_begin ev speakQueue
                    (m\<lparr>state := emit (WerewolvesPhaseStarted []) ((state m)\<lparr>speakQueue := []\<rparr>)\<rparr>)"
    have "fst (run_with_listeners ev room ProcessNextSpeaker ?m) = Thrown RangeError"
      using Suc.prems(1) by (intro Suc.IH) (simp_all add: emit_def)
    then show ?thesis unfolding ProcessWerewolves using Suc.prems(1) by simp
  next
    case ProcessNextSpeaker
    with Suc.prems(2) have q: "speakQueue (state m) = []" by blast
    have "fst (run_with_listeners ev room ProcessAllPlayersSpoken m) = Thrown RangeError"
      using Suc.prems(1) by (intro Suc.IH) simp_all
    then show ?thesis unfolding ProcessNextSpeaker using q by simp
  next
    case ProcessAllPlayersSpoken
    have "fst (run_with_listeners ev room StartNight (m\<lparr>state := (state m)\<lparr>phase := Night\<rparr>\<rparr>)) = Thrown RangeError"
      using Suc.prems(1) by (intro Suc.IH) simp_all
    then show ?thesis unfolding ProcessAllPlayersSpoken by simp
  qed
qed

lemma cycle_pop:
  "speakQueue (state m) = p # q \<Longrightarrow>
   run_with_listeners ev (Suc room) ProcessNextSpeaker m =
     (Returned,
      handleNextSpeaker_begin ev p
        (m\<lparr>state := emit (NextSpeaker p) ((state m)\<lparr>currentSpeaker := Some p, speakQueue := q\<rparr>)\<rparr>))"
  by simp

text \<open>The game state the cycle leaves is the one \<open>run\<close> computes, once the stack has room.\<close>

lemma cycle_StartNight:
  assumes "startNight (state m) = Some (r, s')"
  shows "fst (run_with_listeners ev (Suc (Suc (Suc room))) StartNight m) = r
     \<and> state (snd (run_with_listeners ev (Suc (Suc (Suc room))) StartNight m)) = s'"
proof (cases "filter_living_role Werewolf (players (state m)) (roles (state m))")
  case (Inl e)
  with assms have "r = Thrown e"
    and "s' = emit (NightStarted (currentDay (state m))) ((state m)\<lparr>isNight := True, phase := Night\<rparr>)"
    by (simp_all add: startNight_closed Let_def)
  with Inl show ?thesis by (simp add: emit_def)
next
  case (Inr ws)
  show ?thesis
  proof (cases ws)
    case Nil
    with Inr assms show ?thesis by (simp add: startNight_closed Let_def)
  next
    case (Cons w ws')
    with Inr assms have "r = Returned"
      and "s' = emit (NextSpeaker w)
                  ((emit (WerewolvesPhaseStarted (w # ws'))
                      ((emit (NightStarted (currentDay (state m)))
                          ((state m)\<lparr>isNight := True, phase := Night\<rparr>))\<lparr>speakQueue := w # ws'\<rparr>))
                     \<lparr>currentSpeaker := Some w, speakQueue := ws'\<rparr>)"
      by (simp_all add: startNight_closed Let_def)
    with Inr Cons show ?thesis by (simp add: emit_def)
  qed
qed

lemma cycle_ProcessNextSpeaker:
  assumes "processNextSpeaker (state m) = Some (r, s')"
  shows "fst (run_with_listeners ev (Suc (Suc (Suc (Suc (Suc room))))) ProcessNextSpeaker m) = r
     \<and> state (snd (run_with_listeners ev (Suc (Suc (Suc (Suc (Suc room))))) ProcessNextSpeaker m)) = s'"
proof (cases "speakQueue (state m)")
  case Nil
  let ?m = "m\<lparr>state := (state m)\<lparr>phase := Night\<rparr>\<rparr>"
  from Nil assms have "startNight (state ?m) = Some (r, s')"
    by (simp add: processNextSpeaker_closed)
  from cycle_StartNight [OF this, of ev room]
  have "fst (run_with_listeners ev (Suc (Suc (Suc room))) StartNight ?m) = r
     \<and> state (snd (run_with_listeners ev (Suc (Suc (Suc room))) StartNight ?m)) = s'" .
  moreover have "run_with_listeners ev (Suc (Suc (Suc (Suc (Suc room))))) ProcessNextSpeaker m
      = run_with_listeners ev (Suc (Suc (Suc room))) StartNight ?m"
    using Nil by (simp only: run_with_listeners.simps call.case list.case)
  ultimately show ?thesis by simp
next
  case (Cons p q)
  with assms have "r = Returned"
    and "s' = emit (NextSpeaker p) ((state m)\<lparr>currentSpeaker := Some p, speakQueue := q\<rparr>)"
    by (simp_all add: processNextSpeaker_closed)
  with Cons show ?thesis by (simp only: cycle_pop fst_conv snd_conv listeners_state) simp
qed

lemma cycle_ProcessNextSpeaker_None:
  assumes "processNextSpeaker (state m) = None"
  shows "fst (run_with_listeners ev room ProcessNextSpeaker m) = Thrown RangeError"
proof -
  have q: "speakQueue (state m) = []"
    using assms by (cases "speakQueue (state m)") (simp_all add: processNextSpeaker_closed)
  with assms have n: "startNight ((state m)\<lparr>phase := Night\<rparr>) = None"
    by (simp add: processNextSpeaker_closed)
  have "filter_living_role Werewolf (players (state m)) (roles (state m)) = Inr []"
  proof (cases "filter_living_role Werewolf (players (state m)) (roles (state m))")
    case (Inl e)
    with n show ?thesis by (simp add: startNight_closed Let_def)
  next
    case (Inr ws)
    with n show ?thesis by (cases ws) (simp_all add: startNight_closed Let_def)
  qed
  then show ?thesis using q by (intro cycle_overflow) simp_all
qed

section \<open>Properties of \<open>handleHumanInput\<close>\<close>

lemma handleHumanInput_sent:
  assumes "currentSpeaker (state m) = Some playerId"
  shows "\<exists>info nm ts rest.
           sent (snd (handleHumanInput ev playerId message m)) =
             sent m @ [info, GameLog nm message ts False] @ rest"
proof -
  let ?m1 = "speak ev playerId message None m"
  from speak_sent [of ev playerId message None m] obtain info nm ts where
    s: "sent ?m1 = sent m @ [info, GameLog nm message ts False]" by simp
  from cycle_sent [of ?m1 ev "stackRoom ev" ProcessNextSpeaker] obtain rest where
    "sent (snd (run_with_listeners ev (stackRoom ev) ProcessNextSpeaker ?m1)) = sent ?m1 @ rest"
    unfolding prefix_def by blast
  then have "sent (snd (handleHumanInput ev playerId message m)) =
             sent m @ [info, GameLog nm message ts False] @ rest"
    using assms s by (simp add: handleHumanInput_def)
  then show ?thesis by blast
qed

lemma demo_manager_hw_dead_none: "processNextSpeaker (state demo_manager_hw_dead) = None"
proof -
  have q: "speakQueue (state demo_manager_hw_dead) = []"
    and w: "filter_living_role Werewolf (players (state demo_manager_hw_dead\<lparr>phase := Night\<rparr>))
              (roles (state demo_manager_hw_dead\<lparr>phase := Night\<rparr>)) = Inr []"
    by code_simp+
  show ?thesis
    unfolding processNextSpeaker_closed q startNight_closed Let_def w by simp
qed



section \<open>Properties of the night handlers\<close>

lemma werewolfVotes_throws:
  "\<exists>w \<in> set rest. map_of (aiCharacters m) w \<noteq> None \<Longrightarrow>
   werewolfVotes ev m werewolves rest vs = Inl TypeError"
  by (induction rest) (auto simp: Map_filter_def split: option.splits)

lemma werewolfVotes_skips:
  "\<forall>w \<in> set rest. map_of (aiCharacters m) w = None \<Longrightarrow>
   werewolfVotes ev m werewolves rest vs = Inr vs"
  by (induction rest) auto

lemma resume_throws:
  assumes "\<exists>w \<in> set (werewolves (state m)). map_of (aiCharacters m) w \<noteq> None"
  shows "handleWerewolvesPhase_resume ev werewolves m =
        (Thrown TypeError,
         speak_end ev ''Moderator'' ''Werewolves, open your eyes and choose your victim.''
           (Some (werewolves (state m))) m)"
proof -
  let ?m1 = "speak_end ev ''Moderator'' ''Werewolves, open your eyes and choose your victim.''
           (Some (werewolves (state m))) m"
  from assms have "\<exists>w \<in> set (werewolves (state ?m1)). map_of (aiCharacters ?m1) w \<noteq> None"
    by (simp add: speak_end_lookup_None)
  from werewolfVotes_throws [OF this] show ?thesis
    by (simp add: handleWerewolvesPhase_resume_def Let_def)
qed

lemma resume_returns:
  assumes "\<forall>w \<in> set (werewolves (state m)). map_of (aiCharacters m) w = None"
  shows "handleWerewolvesPhase_resume ev werewolves m =
        (Returned,
         speak_end ev ''Moderator'' ''Werewolves, open your eyes and choose your victim.''
           (Some (werewolves (state m))) m)"
proof -
  let ?m1 = "speak_end ev ''Moderator'' ''Werewolves, open your eyes and choose your victim.''
           (Some (werewolves (state m))) m"
  from assms have "\<forall>w \<in> set (werewolves (state ?m1)). map_of (aiCharacters ?m1) w = None"
    by (simp add: speak_end_lookup_None)
  from werewolfVotes_skips [OF this] show ?thesis
    by (simp add: handleWerewolvesPhase_resume_def Let_def countVotes_def mostVotes_def)
qed

lemma resume_verdict:
  "handleWerewolvesPhase_resume ev werewolves m =
     (if \<exists>w \<in> set (werewolves (state m)). map_of (aiCharacters m) w \<noteq> None
      then Thrown TypeError else Returned,
      speak_end ev ''Moderator'' ''Werewolves, open your eyes and choose your victim.''
        (Some (werewolves (state m))) m)"
proof (cases "\<exists>w \<in> set (werewolves (state m)). map_of (aiCharacters m) w \<noteq> None")
  case True
  from resume_throws [where werewolves = werewolves and m = m and ev = ev, OF this] True show ?thesis by simp
next
  case False
  then have "\<forall>w \<in> set (werewolves (state m)). map_of (aiCharacters m) w = None" by blast
  from resume_returns [where werewolves = werewolves and m = m and ev = ev, OF this] False show ?thesis by simp
qed

lemma cycle_ProcessWerewolves:
  assumes "filter_living_role Werewolf (players (state m)) (roles (state m)) = Inr (w # ws)"
  shows "run_with_listeners ev (Suc (Suc room)) ProcessWerewolves m =
           (Returned,
            handleNextSpeaker_begin ev w
              ((handleWerewolvesPhase_begin ev speakQueue
                  (m\<lparr>state := emit (WerewolvesPhaseStarted (w # ws)) ((state m)\<lparr>speakQueue := w # ws\<rparr>)\<rparr>))
                 \<lparr>state := emit (NextSpeaker w)
                     ((emit (WerewolvesPhaseStarted (w # ws)) ((state m)\<lparr>speakQueue := w # ws\<rparr>))
                        \<lparr>currentSpeaker := Some w, speakQueue := ws\<rparr>)\<rparr>))"
  using assms by (simp add: emit_def)

lemma update_state_lookup:
  "map_of (aiCharacters (m\<lparr>state := s\<rparr>)) i = map_of (aiCharacters m) i"
  by simp

lemma cycle_ProcessWerewolves_after:
  assumes "filter_living_role Werewolf (players (state m)) (roles (state m)) = Inr (w # ws)"
  shows "fst (run_with_listeners ev (Suc (Suc room)) ProcessWerewolves m) = Returned"
    and "speakQueue (state (snd (run_with_listeners ev (Suc (Suc room)) ProcessWerewolves m))) = ws"
    and "currentSpeaker (state (snd (run_with_listeners ev (Suc (Suc room)) ProcessWerewolves m))) = Some w"
    and "players (state (snd (run_with_listeners ev (Suc (Suc room)) ProcessWerewolves m))) = players (state m)"
    and "deadPlayers (state (snd (run_with_listeners ev (Suc (Suc room)) ProcessWerewolves m))) = deadPlayers (state m)"
    and "map_of (aiCharacters (snd (run_with_listeners ev (Suc (Suc room)) ProcessWerewolves m))) i = None
           \<longleftrightarrow> map_of (aiCharacters m) i = None"
  unfolding cycle_ProcessWerewolves [OF assms]
  by (simp_all add: emit_def listeners_lookup_None)

lemma handleWerewolvesPhase_verdict:
  "handleWerewolvesPhase ev werewolves m =
     (if \<exists>w \<in> set (werewolves (state m)). map_of (aiCharacters m) w \<noteq> None
      then Thrown TypeError else Returned,
      speak ev ''Moderator'' ''Werewolves, open your eyes and choose your victim.''
        (Some (werewolves (state m))) m)"
proof -
  let ?msg = "''Werewolves, open your eyes and choose your victim.''"
  let ?b = "handleWerewolvesPhase_begin ev werewolves m"
  have i: "(\<exists>w \<in> set (werewolves (state ?b)). map_of (aiCharacters ?b) w \<noteq> None)
     \<longleftrightarrow> (\<exists>w \<in> set (werewolves (state m)). map_of (aiCharacters m) w \<noteq> None)"
    by (simp only: listeners_lookup_None listeners_state)
  have j: "speak_end ev ''Moderator'' ?msg (Some (werewolves (state ?b))) ?b
             = speak ev ''Moderator'' ?msg (Some (werewolves (state m))) m"
    by (simp add: speak_split handleWerewolvesPhase_begin_def)
  show ?thesis
    unfolding handleWerewolvesPhase_def
      resume_verdict [where werewolves = werewolves and m = ?b and ev = ev] i j ..
qed

lemma resume_after_cycle:
  assumes "filter_living_role Werewolf (players (state m)) (roles (state m)) = Inr (w # ws)"
  shows "fst (handleWerewolvesPhase_resume ev speakQueue
                  (snd (run_with_listeners ev (Suc (Suc room)) ProcessWerewolves m)))
             = (if \<exists>x \<in> set ws. map_of (aiCharacters m) x \<noteq> None
                then Thrown TypeError else Returned)"
    and "state (snd (handleWerewolvesPhase_resume ev speakQueue
                  (snd (run_with_listeners ev (Suc (Suc room)) ProcessWerewolves m))))
             = state (snd (run_with_listeners ev (Suc (Suc room)) ProcessWerewolves m))"
proof -
  let ?r = "snd (run_with_listeners ev (Suc (Suc room)) ProcessWerewolves m)"
  note t = cycle_ProcessWerewolves_after [OF assms, of ev room]
  have i: "(\<exists>x \<in> set (speakQueue (state ?r)). map_of (aiCharacters ?r) x \<noteq> None)
     \<longleftrightarrow> (\<exists>x \<in> set ws. map_of (aiCharacters m) x \<noteq> None)"
    by (simp only: t)
  show "fst (handleWerewolvesPhase_resume ev speakQueue ?r)
             = (if \<exists>x \<in> set ws. map_of (aiCharacters m) x \<noteq> None
                then Thrown TypeError else Returned)"
    unfolding resume_verdict [where werewolves = speakQueue and m = ?r and ev = ev] i
    by (simp only: fst_conv)
  show "state (snd (handleWerewolvesPhase_resume ev speakQueue ?r)) = state ?r"
    unfolding resume_verdict [where werewolves = speakQueue and m = ?r and ev = ev]
    by (simp only: snd_conv speak_end_state)
qed

text \<open>
  Claim C9, as amended. \<open>handleWerewolvesPhase\<close> ends in a \<open>TypeError\<close>, after its first
  narration and before any kill, exactly when an id of the array it was given has an AI
  character at the time the loop reads the array; when no id of the array has one it
  returns normally without asking for a vote or killing anybody. The handler is called by
  the listener of \<open>werewolvesPhaseStarted\<close>, with the speaker queue itself, and
  \<open>processNextSpeaker\<close> has shifted the first living werewolf out of the queue before the
  handler resumes: called that way it ends in a \<open>TypeError\<close> exactly when a living werewolf
  other than the first has an AI character, and returns normally otherwise, in particular
  when only one werewolf is alive. \<open>handleSeerPhase\<close> ends in a \<open>TypeError\<close>, after its
  first narration and with nothing recorded as known, whenever the seer has an AI
  character; otherwise it returns at once. Neither handler changes the game state.
\<close>

theorem night_handlers_type_error:
  "((\<exists>w \<in> set (werewolves (state m)). map_of (aiCharacters m) w \<noteq> None) \<longrightarrow>
      handleWerewolvesPhase_resume ev werewolves m =
        (Thrown TypeError,
         speak_end ev ''Moderator'' ''Werewolves, open your eyes and choose your victim.''
           (Some (werewolves (state m))) m))
   \<and> ((\<forall>w \<in> set (werewolves (state m)). map_of (aiCharacters m) w = None) \<longrightarrow>
      handleWerewolvesPhase_resume ev werewolves m =
        (Returned,
         speak_end ev ''Moderator'' ''Werewolves, open your eyes and choose your victim.''
           (Some (werewolves (state m))) m))
   \<and> state (snd (handleWerewolvesPhase_resume ev werewolves m)) = state m
   \<and> handleWerewolvesPhase ev werewolves m =
        (if \<exists>w \<in> set (werewolves (state m)). map_of (aiCharacters m) w \<noteq> None
         then Thrown TypeError else Returned,
         speak ev ''Moderator'' ''Werewolves, open your eyes and choose your victim.''
           (Some (werewolves (state m))) m)
   \<and> (\<forall>w ws room.
         filter_living_role Werewolf (players (state m)) (roles (state m)) = Inr (w # ws) \<longrightarrow>
           fst (run_with_listeners ev (Suc (Suc room)) ProcessWerewolves m) = Returned
         \<and> speakQueue (state (snd (run_with_listeners ev (Suc (Suc room)) ProcessWerewolves m))) = ws
         \<and> fst (handleWerewolvesPhase_resume ev speakQueue
                  (snd (run_with_listeners ev (Suc (Suc room)) ProcessWerewolves m)))
             = (if \<exists>x \<in> set ws. map_of (aiCharacters m) x \<noteq> None
                then Thrown TypeError else Returned)
         \<and> players (state (snd (handleWerewolvesPhase_resume ev speakQueue
                  (snd (run_with_listeners ev (Suc (Suc room)) ProcessWerewolves m)))))
             = players (state m)
         \<and> deadPlayers (state (snd (handleWerewolvesPhase_resume ev speakQueue
                  (snd (run_with_listeners ev (Suc (Suc room)) ProcessWerewolves m)))))
             = deadPlayers (state m))
   \<and> (map_of (aiCharacters m) seerId \<noteq> None \<longrightarrow>
      handleSeerPhase ev seerId m =
        (Thrown TypeError,
         speak ev ''Moderator'' ''Seer, open your eyes and choose a player to investigate.'' (Some [seerId]) m))
   \<and> (map_of (aiCharacters m) seerId = None \<longrightarrow> handleSeerPhase ev seerId m = (Returned, m))
   \<and> state (snd (handleSeerPhase ev seerId m)) = state m
   \<and> map (knownInformation \<circ> snd) (aiCharacters (snd (handleSeerPhase ev seerId m)))
       = map (knownInformation \<circ> snd) (aiCharacters m)"
proof -
  let ?msg = "''Werewolves, open your eyes and choose your victim.''"
  let ?m2 = "speak ev ''Moderator'' ''Seer, open your eyes and choose a player to investigate.'' (Some [seerId]) m"
  note v = resume_verdict [where werewolves = werewolves and m = m and ev = ev]
  have a: "(\<exists>w \<in> set (werewolves (state m)). map_of (aiCharacters m) w \<noteq> None) \<longrightarrow>
      handleWerewolvesPhase_resume ev werewolves m =
        (Thrown TypeError, speak_end ev ''Moderator'' ?msg (Some (werewolves (state m))) m)"
    unfolding v by simp
  have b: "(\<forall>w \<in> set (werewolves (state m)). map_of (aiCharacters m) w = None) \<longrightarrow>
      handleWerewolvesPhase_resume ev werewolves m =
        (Returned, speak_end ev ''Moderator'' ?msg (Some (werewolves (state m))) m)"
    unfolding v by simp
  have c: "state (snd (handleWerewolvesPhase_resume ev werewolves m)) = state m"
    unfolding v by simp
  note h = handleWerewolvesPhase_verdict [where werewolves = werewolves and m = m and ev = ev]
  have l: "fst (run_with_listeners ev (Suc (Suc room)) ProcessWerewolves m) = Returned
         \<and> speakQueue (state (snd (run_with_listeners ev (Suc (Suc room)) ProcessWerewolves m))) = ws
         \<and> fst (handleWerewolvesPhase_resume ev speakQueue
                  (snd (run_with_listeners ev (Suc (Suc room)) ProcessWerewolves m)))
             = (if \<exists>x \<in> set ws. map_of (aiCharacters m) x \<noteq> None
                then Thrown TypeError else Returned)
         \<and> players (state (snd (handleWerewolvesPhase_resume ev speakQueue
                  (snd (run_with_listeners ev (Suc (Suc room)) ProcessWerewolves m)))))
             = players (state m)
         \<and> deadPlayers (state (snd (handleWerewolvesPhase_resume ev speakQueue
                  (snd (run_with_listeners ev (Suc (Suc room)) ProcessWerewolves m)))))
             = deadPlayers (state m)"
    if f: "filter_living_role Werewolf (players (state m)) (roles (state m)) = Inr (w # ws)"
    for w ws room
  proof -
    note t = cycle_ProcessWerewolves_after [OF f, of ev room]
    note u = resume_after_cycle [OF f, of ev room]
    show ?thesis
      unfolding u by (simp only: t(1,2,4,5) simp_thms)
  qed
  have d: "map_of (aiCharacters m) seerId \<noteq> None \<longrightarrow> handleSeerPhase ev seerId m = (Thrown TypeError, ?m2)"
    by (auto simp: handleSeerPhase_def Let_def Map_filter_def)
  have e: "map_of (aiCharacters m) seerId = None \<longrightarrow> handleSeerPhase ev seerId m = (Returned, m)"
    by (simp add: handleSeerPhase_def)
  have k: "map (knownInformation \<circ> snd) (aiCharacters (speak ev sp msg a m)) = map (knownInformation \<circ> snd) (aiCharacters m)"
    for sp msg a
    by (simp add: speak_aiCharacters updateGameContext_def case_prod_unfold comp_def)
  have g: "state (snd (handleSeerPhase ev seerId m)) = state m
     \<and> map (knownInformation \<circ> snd) (aiCharacters (snd (handleSeerPhase ev seerId m)))
       = map (knownInformation \<circ> snd) (aiCharacters m)"
  proof (cases "map_of (aiCharacters m) seerId = None")
    case True
    with e show ?thesis by simp
  next
    case False
    with d show ?thesis by (simp add: k)
  qed
  from l have l': "\<forall>w ws room.
         filter_living_role Werewolf (players (state m)) (roles (state m)) = Inr (w # ws) \<longrightarrow>
           fst (run_with_listeners ev (Suc (Suc room)) ProcessWerewolves m) = Returned
         \<and> speakQueue (state (snd (run_with_listeners ev (Suc (Suc room)) ProcessWerewolves m))) = ws
         \<and> fst (handleWerewolvesPhase_resume ev speakQueue
                  (snd (run_with_listeners ev (Suc (Suc room)) ProcessWerewolves m)))
             = (if \<exists>x \<in> set ws. map_of (aiCharacters m) x \<noteq> None
                then Thrown TypeError else Returned)
         \<and> players (state (snd (handleWerewolvesPhase_resume ev speakQueue
                  (snd (run_with_listeners ev (Suc (Suc room)) ProcessWerewolves m)))))
             = players (state m)
         \<and> deadPlayers (state (snd (handleWerewolvesPhase_resume ev speakQueue
                  (snd (run_with_listeners ev (Suc (Suc room)) ProcessWerewolves m)))))
             = deadPlayers (state m)"
    by blast
  from g have g1: "state (snd (handleSeerPhase ev seerId m)) = state m"
    and g2: "map (knownInformation \<circ> snd) (aiCharacters (snd (handleSeerPhase ev seerId m)))
       = map (knownInformation \<circ> snd) (aiCharacters m)" by simp_all
  show ?thesis
    by (intro conjI) (rule a b c h l' d e g1 g2)+
qed

theorem night_handlers_type_error_witness:
  "filter_living_role Werewolf (players (state demo_manager_witch)) (roles (state demo_manager_witch))
     = Inr [''h'', ''ai_1'']
   \<and> map_of (aiCharacters demo_manager_witch) ''ai_1'' \<noteq> None
   \<and> fst (run_with_listeners demo_env 12 ProcessWerewolves demo_manager_witch) = Returned
   \<and> speakQueue (state (snd (run_with_listeners demo_env 12 ProcessWerewolves demo_manager_witch))) = [''ai_1'']
   \<and> fst (handleWerewolvesPhase_resume demo_env speakQueue
            (snd (run_with_listeners demo_env 12 ProcessWerewolves demo_manager_witch))) = Thrown TypeError
   \<and> deadPlayers (state (snd (handleWerewolvesPhase_resume demo_env speakQueue
            (snd (run_with_listeners demo_env 12 ProcessWerewolves demo_manager_witch))))) = []
   \<and> map_of (aiCharacters demo_manager_hw) ''h'' = None
   \<and> fst (handleWerewolvesPhase_resume demo_env (\<lambda>_. [''h'']) demo_manager_hw) = Returned
   \<and> map_of (aiCharacters demo_manager_hw) ''ai_1'' \<noteq> None
   \<and> fst (handleWerewolvesPhase_resume demo_env (\<lambda>_. [''ai_1'', ''h'']) demo_manager_hw) = Thrown TypeError
   \<and> map_of (aiCharacters demo_manager_witch) ''ai_4'' \<noteq> None
   \<and> fst (handleSeerPhase demo_env ''ai_4'' demo_manager_witch) = Thrown TypeError
   \<and> map_of (aiCharacters demo_manager_witch) ''h'' = None
   \<and> handleSeerPhase demo_env ''h'' demo_manager_witch = (Returned, demo_manager_witch)"
proof -
  let ?r = "snd (run_with_listeners demo_env (Suc (Suc 10)) ProcessWerewolves demo_manager_witch)"
  have n: "(12 :: nat) = Suc (Suc 10)" by simp
  have f: "filter_living_role Werewolf (players (state demo_manager_witch)) (roles (state demo_manager_witch))
     = Inr (''h'' # [''ai_1''])"
    by code_simp
  have dp: "deadPlayers (state demo_manager_witch) = []"
    by (simp add: demo_manager_witch_def demo6_def addPlayer_def new_GameState_def)
  have 0: "map_of (aiCharacters demo_manager_witch) ''ai_1'' \<noteq> None"
    and 2: "map_of (aiCharacters demo_manager_witch) ''ai_4'' \<noteq> None"
    and 3: "map_of (aiCharacters demo_manager_witch) ''h'' = None"
    by (simp_all add: demo_manager_witch_def)
  have 1: "\<exists>w \<in> set [''ai_1'', ''h'']. map_of (aiCharacters demo_manager_hw) w \<noteq> None"
    and 7: "\<forall>w \<in> set [''h'']. map_of (aiCharacters demo_manager_hw) w = None"
    by (simp_all add: demo_manager_hw_def)
  have x: "\<exists>x \<in> set [''ai_1'']. map_of (aiCharacters demo_manager_witch) x \<noteq> None"
    using 0 by simp
  have l: "fst (run_with_listeners demo_env (Suc (Suc 10)) ProcessWerewolves demo_manager_witch) = Returned
       \<and> speakQueue (state ?r) = [''ai_1'']
       \<and> fst (handleWerewolvesPhase_resume demo_env speakQueue ?r)
             = (if \<exists>x \<in> set [''ai_1'']. map_of (aiCharacters demo_manager_witch) x \<noteq> None
                then Thrown TypeError else Returned)
       \<and> players (state (snd (handleWerewolvesPhase_resume demo_env speakQueue ?r)))
             = players (state demo_manager_witch)
       \<and> deadPlayers (state (snd (handleWerewolvesPhase_resume demo_env speakQueue ?r)))
             = deadPlayers (state demo_manager_witch)"
    using night_handlers_type_error [of speakQueue demo_manager_witch demo_env "''ai_4''"] f by blast
  from l have l1: "fst (run_with_listeners demo_env (Suc (Suc 10)) ProcessWerewolves demo_manager_witch) = Returned"
    and l2: "speakQueue (state ?r) = [''ai_1'']"
    and l3: "fst (handleWerewolvesPhase_resume demo_env speakQueue ?r)
             = (if \<exists>x \<in> set [''ai_1'']. map_of (aiCharacters demo_manager_witch) x \<noteq> None
                then Thrown TypeError else Returned)"
    and l4: "deadPlayers (state (snd (handleWerewolvesPhase_resume demo_env speakQueue ?r)))
             = deadPlayers (state demo_manager_witch)"
    by blast+
  have l3': "fst (handleWerewolvesPhase_resume demo_env speakQueue ?r) = Thrown TypeError"
    unfolding l3 using x by (simp only: if_True)
  have 4: "handleWerewolvesPhase_resume demo_env (\<lambda>_. [''ai_1'', ''h'']) demo_manager_hw =
        (Thrown TypeError,
         speak_end demo_env ''Moderator'' ''Werewolves, open your eyes and choose your victim.''
           (Some [''ai_1'', ''h'']) demo_manager_hw)"
    using night_handlers_type_error [of "\<lambda>_. [''ai_1'', ''h'']" demo_manager_hw demo_env "''ai_4''"] 1
    by blast
  have 8: "handleWerewolvesPhase_resume demo_env (\<lambda>_. [''h'']) demo_manager_hw =
        (Returned,
         speak_end demo_env ''Moderator'' ''Werewolves, open your eyes and choose your victim.''
           (Some [''h'']) demo_manager_hw)"
    using night_handlers_type_error [of "\<lambda>_. [''h'']" demo_manager_hw demo_env "''ai_4''"] 7
    by blast
  have 5: "handleSeerPhase demo_env ''ai_4'' demo_manager_witch =
        (Thrown TypeError,
         speak demo_env ''Moderator'' ''Seer, open your eyes and choose a player to investigate.''
           (Some [''ai_4'']) demo_manager_witch)"
    using night_handlers_type_error [of speakQueue demo_manager_witch demo_env "''ai_4''"] 2
    by blast
  have 6: "handleSeerPhase demo_env ''h'' demo_manager_witch = (Returned, demo_manager_witch)"
    using night_handlers_type_error [of speakQueue demo_manager_witch demo_env "''h''"] 3
    by blast
  have 9: "map_of (aiCharacters demo_manager_hw) ''h'' = None"
    and 10: "map_of (aiCharacters demo_manager_hw) ''ai_1'' \<noteq> None"
    by (simp_all add: demo_manager_hw_def)
  show ?thesis
    unfolding n 4 5 6 8 l1 l2 l3' l4 dp fst_conv
    by (intro conjI refl f 0 2 3 9 10)
qed

text \<open>
  The claim as stated fails in two ways. When the only living werewolf is an AI player,
  the queue handed to the listener of \<open>werewolvesPhaseStarted\<close> is empty by the time the
  handler reads it, and the handler returns normally. When the only living werewolf is the
  human player, a handler called with that werewolf returns normally as well.
\<close>

theorem night_handlers_counterexample:
  "''ai_1'' \<in> living_werewolf_ids (state demo_manager_election)
   \<and> map_of (aiCharacters demo_manager_election) ''ai_1'' = Some (demo_character ''ai_1'' Werewolf)
   \<and> fst (run_with_listeners demo_env 12 StartNight demo_manager_election) = Returned
   \<and> emitted (state (snd (run_with_listeners demo_env 12 StartNight demo_manager_election)))
       = [GameStarted, PoliceElectionStarted, NextSpeaker ''h'',
          NightStarted 1, WerewolvesPhaseStarted [''ai_1''], NextSpeaker ''ai_1'']
   \<and> speakQueue (state (snd (run_with_listeners demo_env 12 StartNight demo_manager_election))) = []
   \<and> fst (handleWerewolvesPhase_resume demo_env speakQueue
            (snd (run_with_listeners demo_env 12 StartNight demo_manager_election))) = Returned
   \<and> ''h'' \<in> living_werewolf_ids (state demo_manager_hw)
   \<and> filter_living_role Werewolf (players (state demo_manager_hw)) (roles (state demo_manager_hw)) = Inr [''h'']
   \<and> fst (handleWerewolvesPhase demo_env (\<lambda>_. [''h'']) demo_manager_hw) = Returned"
proof -
  let ?s = "(state demo_manager_election)\<lparr>isNight := True, phase := Night,
              currentSpeaker := Some ''ai_1'', speakQueue := [],
              emitted := [GameStarted, PoliceElectionStarted, NextSpeaker ''h'',
                          NightStarted 1, WerewolvesPhaseStarted [''ai_1''], NextSpeaker ''ai_1'']\<rparr>"
  let ?r = "snd (run_with_listeners demo_env (Suc (Suc (Suc 9))) StartNight demo_manager_election)"
  have n: "(12 :: nat) = Suc (Suc (Suc 9))" by simp
  have a: "''ai_1'' \<in> living_werewolf_ids (state demo_manager_election)"
    by (simp add: living_werewolf_ids_def demo_manager_election_def demo3_roles_def demo3_eval)
  have b: "''h'' \<in> living_werewolf_ids (state demo_manager_hw)"
    by (simp add: living_werewolf_ids_def demo_manager_hw_def demo3_def addPlayer_def new_GameState_def)
  have c: "map_of (aiCharacters demo_manager_election) ''ai_1'' = Some (demo_character ''ai_1'' Werewolf)"
    by (simp add: demo_manager_election_def)
  have sn: "startNight (state demo_manager_election) = Some (Returned, ?s)"
    by code_simp
  from cycle_StartNight [OF sn, of demo_env 9]
  have d: "fst (run_with_listeners demo_env (Suc (Suc (Suc 9))) StartNight demo_manager_election) = Returned"
    and e: "state ?r = ?s"
    by simp_all
  have q: "speakQueue (state ?r) = []" and em: "emitted (state ?r) =
       [GameStarted, PoliceElectionStarted, NextSpeaker ''h'',
        NightStarted 1, WerewolvesPhaseStarted [''ai_1''], NextSpeaker ''ai_1'']"
    unfolding e by simp_all
  have g: "fst (handleWerewolvesPhase_resume demo_env speakQueue ?r) = Returned"
    unfolding resume_verdict [where werewolves = speakQueue and m = ?r and ev = demo_env] q
    by simp
  have f: "filter_living_role Werewolf (players (state demo_manager_hw)) (roles (state demo_manager_hw)) = Inr [''h'']"
    by code_simp
  have h: "fst (handleWerewolvesPhase demo_env (\<lambda>_. [''h'']) demo_manager_hw) = Returned"
    unfolding handleWerewolvesPhase_verdict
    by (simp add: demo_manager_hw_def)
  show ?thesis
    unfolding n by (intro conjI a b c d em q g f h)
qed

section \<open>Properties of the witch phase\<close>

lemma speak_makeWitchDecision:
  "speak (ev\<lparr>makeWitchDecision := d\<rparr>) sp msg a m = speak ev sp msg a m"
  by (simp add: speak_def)

lemma handleWitchPhase_skipped:
  assumes "map_of (aiCharacters m) witchId = Some character"
    and "map_of (witchPotions m) witchId = Some pot"
    and "\<not> (antidote pot \<and> deadPlayers (state m) \<noteq> [])"
  shows "handleWitchPhase ev witchId m =
           (Returned,
            speak ev ''Moderator'' ''Witch, close your eyes.'' (Some [witchId])
              (speak ev ''Moderator'' ''Witch, open your eyes.'' (Some [witchId]) m))"
  using assms by (auto simp: handleWitchPhase_def Let_def split: list.splits)

text \<open>
  Claim C3, as amended. The witch phase asks for a decision only inside the branch guarded
  by "the antidote is unused and the dead set is not empty". Outside that branch (no
  recorded death, or the antidote already used), even with the poison unused, the phase
  only sends its two narrations to the witch: the result does not depend on what the
  witch would decide, nobody is revived or killed and no potion is consumed. A witch
  without AI character or without potions is passed over.
\<close>

theorem handleWitchPhase_guard:
  "(map_of (aiCharacters m) witchId = None \<or> map_of (witchPotions m) witchId = None \<longrightarrow>
       handleWitchPhase ev witchId m = (Returned, m))
   \<and> (\<forall>character pot.
         map_of (aiCharacters m) witchId = Some character \<and> map_of (witchPotions m) witchId = Some pot
         \<and> \<not> (antidote pot \<and> deadPlayers (state m) \<noteq> []) \<longrightarrow>
           handleWitchPhase ev witchId m =
             (Returned,
              speak ev ''Moderator'' ''Witch, close your eyes.'' (Some [witchId])
                (speak ev ''Moderator'' ''Witch, open your eyes.'' (Some [witchId]) m))
         \<and> (\<forall>d. handleWitchPhase (ev\<lparr>makeWitchDecision := d\<rparr>) witchId m = handleWitchPhase ev witchId m)
         \<and> state (snd (handleWitchPhase ev witchId m)) = state m
         \<and> witchPotions (snd (handleWitchPhase ev witchId m)) = witchPotions m)"
proof (intro conjI allI impI)
  assume "map_of (aiCharacters m) witchId = None \<or> map_of (witchPotions m) witchId = None"
  then show "handleWitchPhase ev witchId m = (Returned, m)"
    by (auto simp: handleWitchPhase_def split: option.splits)
next
  fix character pot
  assume a: "map_of (aiCharacters m) witchId = Some character \<and> map_of (witchPotions m) witchId = Some pot
         \<and> \<not> (antidote pot \<and> deadPlayers (state m) \<noteq> [])"
  then have c: "map_of (aiCharacters m) witchId = Some character"
    and p: "map_of (witchPotions m) witchId = Some pot"
    and g: "\<not> (antidote pot \<and> deadPlayers (state m) \<noteq> [])" by blast+
  show e: "handleWitchPhase ev witchId m =
             (Returned,
              speak ev ''Moderator'' ''Witch, close your eyes.'' (Some [witchId])
                (speak ev ''Moderator'' ''Witch, open your eyes.'' (Some [witchId]) m))"
    by (rule handleWitchPhase_skipped [OF c p g])
  show "state (snd (handleWitchPhase ev witchId m)) = state m"
    and "witchPotions (snd (handleWitchPhase ev witchId m)) = witchPotions m"
    unfolding e by simp_all
  fix d
  show "handleWitchPhase (ev\<lparr>makeWitchDecision := d\<rparr>) witchId m = handleWitchPhase ev witchId m"
    unfolding e handleWitchPhase_skipped [OF c p g, of "ev\<lparr>makeWitchDecision := d\<rparr>"]
    by (simp add: speak_makeWitchDecision)
qed

theorem handleWitchPhase_guard_witness:
  "map_of (aiCharacters demo_manager_witch) ''ai_5'' = Some (demo_character ''ai_5'' Witch)
   \<and> map_of (witchPotions demo_manager_witch) ''ai_5'' = Some \<lparr>antidote = True, poison = True\<rparr>
   \<and> \<not> (antidote \<lparr>antidote = True, poison = True\<rparr> \<and> deadPlayers (state demo_manager_witch) \<noteq> [])
   \<and> handleWitchPhase demo_env ''ai_5'' demo_manager_witch =
       (Returned,
        speak demo_env ''Moderator'' ''Witch, close your eyes.'' (Some [''ai_5''])
          (speak demo_env ''Moderator'' ''Witch, open your eyes.'' (Some [''ai_5'']) demo_manager_witch))
   \<and> witchPotions (snd (handleWitchPhase demo_env ''ai_5'' demo_manager_witch)) = witchPotions demo_manager_witch"
proof -
  have c: "map_of (aiCharacters demo_manager_witch) ''ai_5'' = Some (demo_character ''ai_5'' Witch)"
    and p: "map_of (witchPotions demo_manager_witch) ''ai_5'' = Some \<lparr>antidote = True, poison = True\<rparr>"
    and g: "\<not> (antidote \<lparr>antidote = True, poison = True\<rparr> \<and> deadPlayers (state demo_manager_witch) \<noteq> [])"
    by (simp_all add: demo_manager_witch_def demo6_def addPlayer_def new_GameState_def)
  show ?thesis
    using handleWitchPhase_guard [of demo_manager_witch "''ai_5''" demo_env] c p g
    by blast
qed

text \<open>
  The claim as stated fails on a night without death: the witch holds both potions and
  would poison \<open>h\<close>, but she is not asked; \<open>h\<close> stays alive and the poison unused.
\<close>

theorem handleWitchPhase_counterexample:
  "map_of (witchPotions demo_manager_witch) ''ai_5'' = Some \<lparr>antidote = True, poison = True\<rparr>
   \<and> kill (makeWitchDecision demo_env (demo_character ''ai_5'' Witch) ''ai_2'' True True [] (getGameContext demo_manager_witch))
       = Some ''h''
   \<and> fst (handleWitchPhase demo_env ''ai_5'' demo_manager_witch) = Returned
   \<and> state (snd (handleWitchPhase demo_env ''ai_5'' demo_manager_witch)) = state demo_manager_witch
   \<and> witchPotions (snd (handleWitchPhase demo_env ''ai_5'' demo_manager_witch))
       = [(''ai_5'', \<lparr>antidote = True, poison = True\<rparr>)]
   \<and> map_option isAlive (map_of (players (state demo_manager_witch)) ''h'') = Some True"
proof -
  have c: "map_of (aiCharacters demo_manager_witch) ''ai_5'' = Some (demo_character ''ai_5'' Witch)"
    and p: "map_of (witchPotions demo_manager_witch) ''ai_5'' = Some \<lparr>antidote = True, poison = True\<rparr>"
    and g: "\<not> (antidote \<lparr>antidote = True, poison = True\<rparr> \<and> deadPlayers (state demo_manager_witch) \<noteq> [])"
    and h: "map_option isAlive (map_of (players (state demo_manager_witch)) ''h'') = Some True"
    and w: "witchPotions demo_manager_witch = [(''ai_5'', \<lparr>antidote = True, poison = True\<rparr>)]"
    by (simp_all add: demo_manager_witch_def demo6_def addPlayer_def new_GameState_def)
  have k: "kill (makeWitchDecision demo_env (demo_character ''ai_5'' Witch) ''ai_2'' True True [] (getGameContext demo_manager_witch))
       = Some ''h''"
    by (simp add: demo_env_def)
  show ?thesis
    unfolding handleWitchPhase_skipped [OF c p g] using p h k w by simp
qed

section \<open>Properties of the ballot\<close>

text \<open>
  The map \<open>countVotes\<close> builds lists the targets in discovery order, each with the number
  of its votes.
\<close>

lemma discovery_order_snoc:
  "discovery_order (vs @ [(v, t)]) =
     (if t \<in> snd ` set vs then discovery_order vs else discovery_order vs @ [t])"
  by (simp add: discovery_order_def)

lemma set_discovery_order: "set (discovery_order vs) = snd ` set vs"
  by (simp add: discovery_order_def)

lemma distinct_discovery_order: "distinct (discovery_order vs)"
  by (simp add: discovery_order_def)

lemma vote_count_snoc:
  "vote_count (vs @ [(v, t)]) t' = vote_count vs t' + (if t' = t then 1 else 0)"
  by (simp add: vote_count_def)

lemma vote_count_zero: "t \<notin> snd ` set vs \<Longrightarrow> vote_count vs t = 0"
  by (auto simp: vote_count_def filter_empty_conv image_iff)

lemma vote_count_pos: "t \<in> snd ` set vs \<Longrightarrow> 0 < vote_count vs t"
  by (auto simp: vote_count_def filter_empty_conv image_iff)

lemma update_tabulated_present:
  "k \<in> set ks \<Longrightarrow> distinct ks \<Longrightarrow>
   AList.update k v (map (\<lambda>t. (t, f t)) ks) = map (\<lambda>t. (t, if t = k then v else f t)) ks"
  by (induction ks) auto

lemma update_tabulated_absent:
  "k \<notin> set ks \<Longrightarrow> AList.update k v (map (\<lambda>t. (t, f t)) ks) = map (\<lambda>t. (t, f t)) ks @ [(k, v)]"
  by (induction ks) auto

lemma map_of_tabulated:
  "map_of (map (\<lambda>t. (t, f t)) ks) k = (if k \<in> set ks then Some (f k) else None)"
  by (induction ks) auto

lemma countVotes_snoc:
  "countVotes (vs @ [(v, t)]) =
     AList.update t ((case map_of (countVotes vs) t of None \<Rightarrow> 0 | Some c \<Rightarrow> c) + 1) (countVotes vs)"
  by (simp add: countVotes_def)

lemma countVotes_tabulated:
  "countVotes vs = map (\<lambda>t. (t, vote_count vs t)) (discovery_order vs)"
proof (induction vs rule: rev_induct)
  case Nil
  then show ?case by (simp add: countVotes_def discovery_order_def)
next
  case (snoc x vs)
  obtain v t where x: "x = (v, t)" by (cases x)
  show ?case
  proof (cases "t \<in> snd ` set vs")
    case True
    then have m: "t \<in> set (discovery_order vs)" by (simp add: set_discovery_order)
    show ?thesis
      unfolding x countVotes_snoc snoc.IH map_of_tabulated
      using True m by (simp add: update_tabulated_present distinct_discovery_order
          discovery_order_snoc vote_count_snoc)
  next
    case False
    then have m: "t \<notin> set (discovery_order vs)" by (simp add: set_discovery_order)
    show ?thesis
      unfolding x countVotes_snoc snoc.IH map_of_tabulated
      using False m by (auto simp: update_tabulated_absent discovery_order_snoc vote_count_snoc
          vote_count_zero)
  qed
qed

text \<open>
  The scan for the maximum, started with any bound \<open>m\<close>: either no count exceeds the
  bound and nothing changes, or the result is the first target whose count no other exceeds.
\<close>

lemma mostVotes_scan:
  "fold (\<lambda>(targetId, count) (maxVotes, eliminated).
           if count > maxVotes then (count, Some targetId) else (maxVotes, eliminated))
        (map (\<lambda>t. (t, f t)) ks) (m :: nat, e) = (m', e') \<Longrightarrow>
   ((\<forall>t \<in> set ks. f t \<le> m) \<and> m' = m \<and> e' = e)
   \<or> (\<exists>pre w post. ks = pre @ w # post \<and> e' = Some w \<and> m' = f w \<and> m < f w
          \<and> (\<forall>t \<in> set pre. f t < f w) \<and> (\<forall>t \<in> set post. f t \<le> f w))"
proof (induction ks arbitrary: m e)
  case Nil
  then show ?case by simp
next
  case (Cons k ks)
  let ?g = "\<lambda>(targetId, count) (maxVotes, eliminated).
           if count > maxVotes then (count, Some targetId) else (maxVotes, eliminated)"
  let ?win = "\<lambda>ks m pre w post. ks = pre @ w # post \<and> e' = Some w \<and> m' = f w \<and> m < f w
          \<and> (\<forall>t \<in> set pre. f t < f w) \<and> (\<forall>t \<in> set post. f t \<le> f w)"
  show ?case
  proof (cases "f k > m")
    case True
    with Cons.prems have "fold ?g (map (\<lambda>t. (t, f t)) ks) (f k, Some k) = (m', e')" by simp
    from Cons.IH [OF this] show ?thesis
    proof (elim disjE exE)
      assume "(\<forall>t \<in> set ks. f t \<le> f k) \<and> m' = f k \<and> e' = Some k"
      with True have "?win (k # ks) m [] k ks" by simp
      then show ?thesis by (intro disjI2 exI)
    next
      fix pre w post
      assume "?win ks (f k) pre w post"
      with True have "?win (k # ks) m (k # pre) w post" by simp
      then show ?thesis by (intro disjI2 exI)
    qed
  next
    case False
    with Cons.prems have "fold ?g (map (\<lambda>t. (t, f t)) ks) (m, e) = (m', e')" by simp
    from Cons.IH [OF this] show ?thesis
    proof (elim disjE exE)
      assume "(\<forall>t \<in> set ks. f t \<le> m) \<and> m' = m \<and> e' = e"
      with False show ?thesis by simp
    next
      fix pre w post
      assume "?win ks m pre w post"
      with False have "?win (k # ks) m (k # pre) w post" by simp
      then show ?thesis by (intro disjI2 exI)
    qed
  qed
qed

lemma mostVotes_empty: "snd (mostVotes (countVotes [])) = None"
  by (simp add: mostVotes_def countVotes_def)

lemma mostVotes_winner:
  assumes "vs \<noteq> []"
  shows "\<exists>w. snd (mostVotes (countVotes vs)) = Some w \<and> is_plurality_winner vs w \<and> w \<in> snd ` set vs"
proof -
  obtain m' e' where r: "mostVotes (countVotes vs) = (m', e')" by force
  then have "fold (\<lambda>(targetId, count) (maxVotes, eliminated).
           if count > maxVotes then (count, Some targetId) else (maxVotes, eliminated))
        (map (\<lambda>t. (t, vote_count vs t)) (discovery_order vs)) (0, None) = (m', e')"
    by (simp add: mostVotes_def countVotes_tabulated)
  from mostVotes_scan [OF this]
  show ?thesis
  proof
    assume a: "(\<forall>t \<in> set (discovery_order vs). vote_count vs t \<le> 0) \<and> m' = 0 \<and> e' = None"
    from assms obtain v t where "(v, t) \<in> set vs" by (cases vs) auto
    then have t: "t \<in> snd ` set vs" by force
    then have "t \<in> set (discovery_order vs)" by (simp only: set_discovery_order)
    with a have "vote_count vs t \<le> 0" by blast
    with vote_count_pos [OF t] have False by simp
    then show ?thesis ..
  next
    assume "\<exists>pre w post. discovery_order vs = pre @ w # post \<and> e' = Some w \<and> m' = vote_count vs w
          \<and> 0 < vote_count vs w
          \<and> (\<forall>t \<in> set pre. vote_count vs t < vote_count vs w)
          \<and> (\<forall>t \<in> set post. vote_count vs t \<le> vote_count vs w)"
    then obtain pre w post where h: "discovery_order vs = pre @ w # post" "e' = Some w"
          "\<forall>t \<in> set pre. vote_count vs t < vote_count vs w"
          "\<forall>t \<in> set post. vote_count vs t \<le> vote_count vs w" by blast
    from h(1) have "w \<in> set (discovery_order vs)" by simp
    then have "w \<in> snd ` set vs" by (simp add: set_discovery_order)
    moreover have "is_plurality_winner vs w"
      unfolding is_plurality_winner_def using h(1,3,4) by blast
    ultimately show ?thesis using r h(2) by simp
  qed
qed

text \<open>What the functions called at the end of \<open>processVotes\<close> leave untouched.\<close>

lemma eliminations_append: "eliminations (es @ es') = eliminations es @ eliminations es'"
  by (simp add: eliminations_def List.map_filter_def)

lemma eliminations_simps:
  "eliminations [] = []"
  "eliminations (e # es) = (case eliminated_of e of None \<Rightarrow> eliminations es | Some i \<Rightarrow> i # eliminations es)"
  by (simp_all add: eliminations_def List.map_filter_def split: option.splits)

lemma filter_living_role_member:
  "(i, r) \<in> set es \<Longrightarrow> map_of ps i = Some p \<Longrightarrow> isAlive p \<Longrightarrow>
   filter_living_role r ps es = Inr ids \<Longrightarrow> i \<in> set ids"
  by (induction es arbitrary: ids) (auto split: if_splits option.splits sum.splits)

lemma living_werewolf_found:
  assumes "distinct (map fst (players s))" and "livingWerewolves s \<noteq> 0"
  shows "filter_living_role Werewolf (players s) (roles s) \<noteq> Inr []"
proof
  assume e: "filter_living_role Werewolf (players s) (roles s) = Inr []"
  from assms(2) obtain i p where ip: "(i, p) \<in> set (players s)" "isAlive p"
    "map_of (roles s) i = Some Werewolf"
    by (auto simp: livingWerewolves_def livingPlayers_def filter_empty_conv)
  from ip(3) have "(i, Werewolf) \<in> set (roles s)" by (rule map_of_SomeD)
  moreover from ip(1) assms(1) have "map_of (players s) i = Some p" by simp
  ultimately have "i \<in> set []" using ip(2) e by (intro filter_living_role_member)
  then show False by simp
qed

lemma processSeer_frame:
  assumes "processSeer s = (r, s')"
  shows "players s' = players s \<and> votes s' = votes s \<and> deadPlayers s' = deadPlayers s
     \<and> eliminations (emitted s') = eliminations (emitted s)"
  using assms
  by (auto simp: processSeer_def processWitch_def startDay_def emit_def eliminations_append
        eliminations_simps split: sum.splits option.splits)

lemma startNight_result:
  assumes "distinct (map fst (players s))" and "livingWerewolves s \<noteq> 0"
  shows "\<exists>r s'. startNight s = Some (r, s') \<and> players s' = players s \<and> votes s' = votes s
     \<and> deadPlayers s' = deadPlayers s \<and> eliminations (emitted s') = eliminations (emitted s)"
  using living_werewolf_found [OF assms]
  by (auto simp: startNight_closed Let_def emit_def eliminations_append eliminations_simps
        split: sum.splits list.splits)

text \<open>What \<open>processVotes\<close> does once the ballot has been cleared.\<close>

lemma processVotes_tail:
  assumes "distinct (map fst (players s2))"
  shows "\<exists>r s'. (case checkGameEnd s2 of
                   (ended, s3) \<Rightarrow> if ended then Some (Returned, s3)
                                  else if isNight s3 then Some (processSeer s3) else startNight s3)
                 = Some (r, s')
     \<and> players s' = players s2 \<and> votes s' = votes s2 \<and> deadPlayers s' = deadPlayers s2
     \<and> eliminations (emitted s') = eliminations (emitted s2)"
proof (cases "livingWerewolves s2 = 0")
  case True
  then show ?thesis
    by (simp add: checkGameEnd_def emit_def eliminations_append eliminations_simps)
next
  case w: False
  show ?thesis
  proof (cases "livingVillagers s2 = 0")
    case True
    with w show ?thesis
      by (simp add: checkGameEnd_def emit_def eliminations_append eliminations_simps)
  next
    case False
    with w have c: "checkGameEnd s2 = (False, s2)" by (simp add: checkGameEnd_def)
    show ?thesis
    proof (cases "isNight s2")
      case True
      obtain r s' where p: "processSeer s2 = (r, s')" by force
      from processSeer_frame [OF p] show ?thesis using True by (simp add: c p)
    next
      case False
      from startNight_result [OF assms w] show ?thesis using False by (simp add: c)
    qed
  qed
qed

lemma processVotes_unfold:
  "processVotes s =
     (case checkGameEnd
             ((case snd (mostVotes (countVotes (votes s))) of
                 None \<Rightarrow> s
               | Some e \<Rightarrow> if e = [] then s else emit (PlayerEliminated e) (killPlayer e s))\<lparr>votes := []\<rparr>) of
        (ended, s3) \<Rightarrow> if ended then Some (Returned, s3)
                       else if isNight s3 then Some (processSeer s3) else startNight s3)"
  by (simp add: processVotes_def Let_def)

lemma demo_ballot_eval:
  "demo_ballot =
     \<lparr> players =
         [(''h'', \<lparr>pid = ''h'', isAI = False, pname = ''Human Player'', isAlive = True, hasSpoken = False\<rparr>),
          (''ai_1'', \<lparr>pid = ''ai_1'', isAI = True, pname = ''Player ai_1'', isAlive = True, hasSpoken = False\<rparr>),
          (''ai_2'', \<lparr>pid = ''ai_2'', isAI = True, pname = ''Player ai_2'', isAlive = True, hasSpoken = False\<rparr>)],
       roles = [(''h'', Villager), (''ai_1'', Werewolf), (''ai_2'', Villager)],
       isNight = False, currentDay = 1, phase = Day, deadPlayers = [],
       votes = [(''h'', ''ai_2''), (''ai_1'', ''h''), (''ai_2'', ''ai_1'')], police = None,
       currentSpeaker = None, speakQueue = [], gameStarted = True, emitted = [] \<rparr>"
  by (simp add: demo_ballot_def demo_day_def demo3_roles_def demo3_def addPlayer_def new_GameState_def)




section \<open>Properties of \<open>vote\<close>\<close>

text \<open>
  A voter who is no player or is dead is rejected with an error and the state is left as
  it was; the vote of a living voter is stored under the voter's id, replacing an earlier
  one, and \<open>processVotes\<close> is called when the ballot then has as many entries as there are
  living players.
\<close>

lemma vote_rejected:
  "map_of (players s) voterId = None \<Longrightarrow> vote voterId targetId s = Some (Thrown TypeError, s)"
  "map_of (players s) voterId = Some p \<Longrightarrow> \<not> isAlive p \<Longrightarrow>
     vote voterId targetId s = Some (Thrown DeadPlayersCannotVote, s)"
  by (simp_all add: vote_def)

lemma vote_recorded:
  assumes "map_of (players s) voterId = Some p" and "isAlive p"
  shows "vote voterId targetId s =
     (let s1 = emit (Vote voterId targetId) (s\<lparr>votes := AList.update voterId targetId (votes s)\<rparr>)
      in if length (votes s1) = length (livingPlayers s1) then processVotes s1 else Some (Returned, s1))"
    and "map_of (AList.update voterId targetId (votes s)) voterId = Some targetId"
  using assms by (simp_all add: vote_def Let_def update_Some_unfold)

text \<open>
  The test of \<open>vote\<close> compares two sizes. It says that every living player has voted as
  long as every recorded vote is the vote of a living player.
\<close>

lemma count_test_when_no_stale_vote:
  assumes "distinct (map fst (players s))" and "distinct (map fst (votes s))"
    and "fst ` set (votes s) \<subseteq> living_ids s"
  shows "length (votes s) = length (livingPlayers s) \<longleftrightarrow> living_ids s \<subseteq> fst ` set (votes s)"
proof -
  have v: "card (fst ` set (votes s)) = length (votes s)"
    using distinct_card [OF assms(2)] by simp
  have l: "card (living_ids s) = length (livingPlayers s)"
    using distinct_card [OF livingPlayers_ids(1) [OF assms(1)]] livingPlayers_ids(2) [OF assms(1)]
    by simp
  have fin: "finite (living_ids s)"
    using livingPlayers_ids(2) [OF assms(1)] by (metis List.finite_set)
  show ?thesis
  proof
    assume "length (votes s) = length (livingPlayers s)"
    then have "card (fst ` set (votes s)) = card (living_ids s)" using v l by simp
    with assms(3) fin have "fst ` set (votes s) = living_ids s" by (simp add: card_subset_eq)
    then show "living_ids s \<subseteq> fst ` set (votes s)" by simp
  next
    assume "living_ids s \<subseteq> fst ` set (votes s)"
    with assms(3) have "fst ` set (votes s) = living_ids s" by blast
    then show "length (votes s) = length (livingPlayers s)" using v l by simp
  qed
qed

lemma demo_stale_run_eval: "demo_stale_run = Some demo_stale"
  by code_simp

text \<open>
  Claim C5 at the input on which the code departs from it. \<open>h\<close> has voted and has been
  killed since; the living players are \<open>ai_1\<close> and \<open>ai_2\<close>, and the ballot holds the vote of
  \<open>h\<close> only. When \<open>ai_1\<close> votes, the ballot has two entries for two living players, so
  \<open>vote\<close> calls \<open>processVotes\<close>, which eliminates \<open>ai_1\<close> and ends the game, although the
  living player \<open>ai_2\<close> has no recorded vote. And when \<open>ai_2\<close> has been killed too, the vote
  of \<open>ai_1\<close>, the only living player, makes two entries for one living player: \<open>vote\<close>
  returns without calling \<open>processVotes\<close>, although every living player has voted.
\<close>

theorem vote_stale_ballot:
  "demo_stale_run = Some demo_stale
   \<and> map fst (livingPlayers demo_stale) = [''ai_1'', ''ai_2'']
   \<and> map fst (votes demo_stale) = [''h'']
   \<and> vote ''ai_1'' ''ai_2'' demo_stale =
       processVotes (emit (Vote ''ai_1'' ''ai_2'')
                       (demo_stale\<lparr>votes := [(''h'', ''ai_1''), (''ai_1'', ''ai_2'')]\<rparr>))
   \<and> vote ''ai_1'' ''ai_2'' demo_stale =
       Some (Returned,
             demo_stale\<lparr>players :=
                  [(''h'', \<lparr>pid = ''h'', isAI = False, pname = ''Human Player'', isAlive = False, hasSpoken = False\<rparr>),
                   (''ai_1'', \<lparr>pid = ''ai_1'', isAI = True, pname = ''Player ai_1'', isAlive = False, hasSpoken = False\<rparr>),
                   (''ai_2'', \<lparr>pid = ''ai_2'', isAI = True, pname = ''Player ai_2'', isAlive = True, hasSpoken = False\<rparr>)],
                deadPlayers := [''h'', ''ai_1''], votes := [],
                emitted := emitted demo_stale @
                  [Vote ''ai_1'' ''ai_2'', PlayerDied ''ai_1'', PlayerEliminated ''ai_1'',
                   GameEnded Villagers]\<rparr>)
   \<and> map fst (livingPlayers demo_stale2) = [''ai_1'']
   \<and> vote ''ai_1'' ''ai_2'' demo_stale2 =
       Some (Returned,
             emit (Vote ''ai_1'' ''ai_2'')
               (demo_stale2\<lparr>votes := [(''h'', ''ai_1''), (''ai_1'', ''ai_2'')]\<rparr>))"
  by code_simp

end
